theory Spec2Isabelle
  imports Complex_Main
begin

section \<open>Data model of \<open>bw2data/parameters.py\<close>\<close>

text \<open>
  The module keeps six tables in one SQLite file (\<open>parameters.db\<close>) and talks to three
  collaborators that live elsewhere: the \<open>databases\<close> metadata, the activity store reached
  through \<open>get_activity\<close>, and the formula evaluator (\<open>asteval\<close>, \<open>bw2parameters\<close>).
  A table is the list of its rows. Amounts are \<open>FloatField\<close>s; they are only stored and
  handed to the evaluator, so they are modelled as reals, and \<open>None\<close> is SQL \<open>NULL\<close>.

  The pickled \<open>data\<close> column of the three parameter tables holds a Python \<open>dict\<close> with
  string keys. A \<open>dict\<close> is an association list that is read from the front
  (\<open>map_of\<close>): \<open>dict(pairs)\<close> is the reversed list of the pairs, and \<open>d.update(e)\<close>
  puts \<open>e\<close> in front of \<open>d\<close>. Its values are strings, numbers, \<open>None\<close>, or
  anything else (\<open>Opaque\<close>).
\<close>

type_synonym amount = real

datatype pyval = Str string | Num amount | PyNone | Opaque nat

type_synonym pydict = "(string \<times> pyval) list"

record pparam =
  pp_name :: string
  pp_formula :: "string option"
  pp_amount :: "amount option"
  pp_data :: pydict

record dparam =
  dp_database :: string
  dp_name :: string
  dp_formula :: "string option"
  dp_amount :: "amount option"
  dp_data :: pydict

record aparam =
  ap_group :: string
  ap_database :: string
  ap_code :: string
  ap_name :: string
  ap_formula :: "string option"
  ap_amount :: "amount option"
  ap_data :: pydict

record pexchange =
  pe_group :: string
  pe_exchange :: nat
  pe_formula :: string

record group_row =
  g_name :: string
  g_fresh :: bool
  g_updated :: nat
  g_order :: "string list"

text \<open>A \<open>GroupDependency\<close> row is the pair \<open>(group, depends)\<close>.\<close>

type_synonym gdep = "string \<times> string"

text \<open>
  The activity store: what \<open>get_activity\<close> returns, with the embedded parameter
  definitions (\<open>None\<close> when the record has no \<open>parameters\<close> key) and the exchanges.
  An embedded parameter has its \<open>variable\<close>, maybe a \<open>formula\<close> and an \<open>amount\<close>, and
  its other keys in \<open>rp_extra\<close>.
\<close>

record raw_param =
  rp_variable :: string
  rp_formula :: "string option"
  rp_amount :: "amount option"
  rp_extra :: pydict

record exchange =
  x_id :: nat
  x_formula :: "string option"

record activity =
  a_database :: string
  a_code :: string
  a_parameters :: "raw_param list option"
  a_exchanges :: "exchange list"

datatype error =
    MissingName "string set"
  | DoesNotExist
  | AssertionError string
  | ValueError string
  | IntegrityError string
  | SyntaxError
  | NameError string
  | TypeError string
  | EvaluatorError string

text \<open>
  \<open>databases\<close> are the names registered in the project's metadata, \<open>dirty\<close> collects the
  calls of \<open>databases.set_dirty\<close>, and \<open>clock\<close> is what \<open>datetime('now')\<close> reads.
\<close>

record state =
  projectparameter :: "pparam list"
  databaseparameter :: "dparam list"
  activityparameter :: "aparam list"
  parameterizedexchange :: "pexchange list"
  group_table :: "group_row list"
  groupdependency :: "gdep list"
  databases :: "string list"
  activities :: "activity list"
  dirty :: "string list"
  clock :: nat

text \<open>
  A procedure either returns or raises; both leave a state behind.
\<close>

datatype outcome = Returns state | Raises error state

text \<open>
  The evaluator is a parameter of the model. \<open>symtable\<close> is the set of names a fresh
  \<open>asteval.Interpreter\<close> defines, \<open>names_of\<close> is \<open>NameFinder\<close> over the parsed value of
  a \<open>formula\<close> key (\<open>None\<close> when it does not parse), and \<open>evaluate_and_set_amount_field\<close>
  is \<open>ParameterSet(data, glo).evaluate_and_set_amount_field()\<close>: given the \<open>dict\<close> that
  \<open>load\<close> built (key and parameter \<open>dict\<close> of every entry) and the outer symbol table, it
  fails or gives the amount of every key. A failure inside the evaluator is kept apart
  from the errors this module raises itself: it is the message under \<open>EvaluatorError\<close>.
\<close>

record evaluator =
  symtable :: "string set"
  names_of :: "pyval \<Rightarrow> string set option"
  evaluate_and_set_amount_field ::
    "(pyval \<times> pydict) list \<Rightarrow> (string \<times> amount option) list option
       \<Rightarrow> string + (pyval \<Rightarrow> amount)"

section \<open>The group registry\<close>

definition group_get :: "state \<Rightarrow> string \<Rightarrow> group_row option" where
  "group_get s n = find (\<lambda>g. g_name g = n) (group_table s)"

text \<open>\<open>Group.purge_order\<close>: database names and \<open>project\<close> leave the order.\<close>

definition purge_order :: "state \<Rightarrow> group_row \<Rightarrow> group_row" where
  "purge_order s g =
     g\<lparr>g_order := filter (\<lambda>x. x \<notin> set (databases s) \<union> {''project''}) (g_order g)\<rparr>"

text \<open>
  \<open>Group.save\<close> of a row that was read from the table: the row of that name (names are
  unique in \<open>group_table\<close>) is overwritten with every field of the object.
\<close>

definition group_save :: "group_row \<Rightarrow> state \<Rightarrow> state" where
  "group_save g s =
     s\<lparr>group_table :=
         map (\<lambda>r. if g_name r = g_name g then purge_order s g else r) (group_table s)\<rparr>"

text \<open>\<open>Group.get_or_create(name=n)[0]\<close>: a new row has the column defaults.\<close>

definition group_get_or_create :: "string \<Rightarrow> state \<Rightarrow> group_row \<times> state" where
  "group_get_or_create n s =
     (case group_get s n of
        Some g \<Rightarrow> (g, s)
      | None \<Rightarrow>
          (let g = \<lparr>g_name = n, g_fresh = True, g_updated = clock s, g_order = []\<rparr>
           in (g, s\<lparr>group_table := group_table s @ [g]\<rparr>)))"

definition expire :: "group_row \<Rightarrow> state \<Rightarrow> state" where
  "expire g s = group_save (g\<lparr>g_fresh := False\<rparr>) s"

definition freshen :: "group_row \<Rightarrow> state \<Rightarrow> state" where
  "freshen g s = group_save (g\<lparr>g_fresh := True\<rparr>) s"

text \<open>
  The \<open>AUTOUPDATE_TRIGGER\<close>s: after a row of a parameter table is inserted, updated or
  deleted, the group of that name gets a new \<open>updated\<close> stamp.
\<close>

definition touch :: "string \<Rightarrow> state \<Rightarrow> state" where
  "touch n s =
     s\<lparr>group_table :=
         map (\<lambda>r. if g_name r = n then r\<lparr>g_updated := clock s\<rparr> else r) (group_table s)\<rparr>"

text \<open>
  \<open>ParameterBase.expire_downstream\<close>: one SQL \<open>UPDATE\<close> of the column \<open>fresh\<close> on the rows
  whose name is the \<open>group\<close> of an edge with \<open>depends = group\<close>.
\<close>

definition dependents :: "state \<Rightarrow> string \<Rightarrow> string set" where
  "dependents s g = set (map fst (filter (\<lambda>e. snd e = g) (groupdependency s)))"

definition expire_downstream :: "string \<Rightarrow> state \<Rightarrow> state" where
  "expire_downstream g s =
     s\<lparr>group_table :=
         map (\<lambda>r. if g_name r \<in> dependents s g then r\<lparr>g_fresh := False\<rparr> else r)
           (group_table s)\<rparr>"

text \<open>The three \<open>expired\<close> methods: a missing row counts as fresh.\<close>

definition expired :: "state \<Rightarrow> string \<Rightarrow> bool" where
  "expired s n = (case group_get s n of Some g \<Rightarrow> \<not> g_fresh g | None \<Rightarrow> False)"

section \<open>The dependency graph\<close>

text \<open>
  An \<open>INSERT\<close> into \<open>groupdependency\<close> runs the \<open>gd_circular_INSERT\<close> trigger
  (\<open>_CLOSURE_TEMPLATE\<close>) before the row is written, then the \<open>CHECK\<close> constraint
  \<open>"group" != depends\<close> and the unique index on \<open>(group, depends)\<close>. SQLite reports each
  of the three as an \<open>IntegrityError\<close>.
\<close>

definition closure_trigger :: "gdep \<Rightarrow> state \<Rightarrow> bool" where
  "closure_trigger new s =
     (\<exists>g \<in> set (groupdependency s). fst g = snd new \<and> snd g = fst new)"

definition gd_insert :: "gdep \<Rightarrow> state \<Rightarrow> outcome" where
  "gd_insert new s =
     (if closure_trigger new s then Raises (IntegrityError ''Circular dependency'') s
      else if fst new = snd new then Raises (IntegrityError ''CHECK constraint failed'') s
      else if new \<in> set (groupdependency s)
        then Raises (IntegrityError ''UNIQUE constraint failed'') s
      else Returns (s\<lparr>groupdependency := groupdependency s @ [new]\<rparr>))"

text \<open>
  \<open>GroupDependency.insert_many(rows).execute()\<close> is one statement: the rows go in one
  after the other, and a row that is refused takes the whole statement back.
\<close>

fun gd_insert_rows :: "gdep list \<Rightarrow> state \<Rightarrow> outcome" where
  "gd_insert_rows [] s = Returns s"
| "gd_insert_rows (new # rows) s =
     (case gd_insert new s of
        Raises e s' \<Rightarrow> Raises e s'
      | Returns s' \<Rightarrow> gd_insert_rows rows s')"

definition gd_insert_many :: "gdep list \<Rightarrow> state \<Rightarrow> outcome" where
  "gd_insert_many rows s =
     (case gd_insert_rows rows s of
        Raises e s' \<Rightarrow> Raises e s
      | Returns s' \<Rightarrow> Returns s')"

text \<open>\<open>GroupDependency.save\<close>: the two checks in Python, then the insert.\<close>

definition gd_save :: "gdep \<Rightarrow> state \<Rightarrow> outcome" where
  "gd_save new s =
     (if fst new = ''project''
        then Raises (ValueError ''`project` group can't have dependencies'') s
      else if fst new \<in> set (databases s) \<and> snd new \<noteq> ''project''
        then Raises (ValueError ''Database groups can only depend on `project`'') s
      else gd_insert new s)"

definition gd_get_or_create :: "gdep \<Rightarrow> state \<Rightarrow> outcome" where
  "gd_get_or_create new s =
     (if new \<in> set (groupdependency s) then Returns s else gd_save new s)"

text \<open>
  \<open>with parameters.db.atomic()\<close>: an exception inside the block takes the six tables of
  \<open>parameters.db\<close> back to what they were on entry; what lives outside that file stays.
\<close>

definition rollback :: "state \<Rightarrow> state \<Rightarrow> state" where
  "rollback s0 s =
     s\<lparr>projectparameter := projectparameter s0,
       databaseparameter := databaseparameter s0,
       activityparameter := activityparameter s0,
       parameterizedexchange := parameterizedexchange s0,
       group_table := group_table s0,
       groupdependency := groupdependency s0\<rparr>"

definition atomic :: "state \<Rightarrow> outcome \<Rightarrow> outcome" where
  "atomic s0 out =
     (case out of Returns s \<Rightarrow> Returns s | Raises e s \<Rightarrow> Raises e (rollback s0 s))"

section \<open>Parameter dictionaries\<close>

text \<open>
  \<open>nonempty\<close> drops the keys whose value is \<open>None\<close>. The \<open>dict\<close> property of a row is
  \<open>nonempty\<close> of its columns, updated with the pickled \<open>data\<close>: a key of \<open>data\<close> wins
  over the column of the same name.
\<close>

definition nonempty :: "(string \<times> pyval option) list \<Rightarrow> pydict" where
  "nonempty dct = List.map_filter (\<lambda>kv. map_option (Pair (fst kv)) (snd kv)) dct"

definition pp_dict :: "pparam \<Rightarrow> pydict" where
  "pp_dict r =
     pp_data r
     @ nonempty [(''name'', Some (Str (pp_name r))),
                 (''formula'', map_option Str (pp_formula r)),
                 (''amount'', map_option Num (pp_amount r))]"

definition dp_dict :: "dparam \<Rightarrow> pydict" where
  "dp_dict r =
     dp_data r
     @ nonempty [(''database'', Some (Str (dp_database r))),
                 (''name'', Some (Str (dp_name r))),
                 (''formula'', map_option Str (dp_formula r)),
                 (''amount'', map_option Num (dp_amount r))]"

definition ap_dict :: "aparam \<Rightarrow> pydict" where
  "ap_dict r =
     ap_data r
     @ nonempty [(''database'', Some (Str (ap_database r))),
                 (''code'', Some (Str (ap_code r))),
                 (''name'', Some (Str (ap_name r))),
                 (''formula'', map_option Str (ap_formula r)),
                 (''amount'', map_option Num (ap_amount r))]"

text \<open>
  \<open>reformat\<close> inside the three \<open>load\<close> methods: \<open>(o.pop("name"), o)\<close>. The name column is
  never \<open>NULL\<close>, so every \<open>dict\<close> has the key and the second case does not arise.
\<close>

definition reformat :: "pydict \<Rightarrow> pyval \<times> pydict" where
  "reformat o' =
     (case map_of o' ''name'' of
        Some v \<Rightarrow> (v, filter (\<lambda>kv. fst kv \<noteq> ''name'') o')
      | None \<Rightarrow> (PyNone, o'))"

text \<open>
  The entries of a \<open>dict\<close> (\<open>items()\<close>, and with them \<open>keys()\<close> and \<open>values()\<close>): every
  key once, with the value that reading from the front finds.
\<close>

definition dict_items :: "('k \<times> 'v) list \<Rightarrow> ('k \<times> 'v) list" where
  "dict_items d = foldr (\<lambda>kv acc. kv # filter (\<lambda>x. fst x \<noteq> fst kv) acc) d []"

section \<open>Free symbols of a scope\<close>

text \<open>
  \<open>get_new_symbols(data, context)\<close>: the names found in the formulas of the parameter
  dictionaries that have the key \<open>formula\<close>, without the interpreter's own symbols and
  without \<open>context\<close>. The first formula that does not parse raises. \<open>context\<close> is the set
  of the keys of \<open>load\<close>; a found name is a string and is in it when it is one of the keys.
\<close>

fun found_names :: "evaluator \<Rightarrow> pydict list \<Rightarrow> string set option" where
  "found_names ev [] = Some {}"
| "found_names ev (ds # rest) =
     (case map_of ds ''formula'' of
        None \<Rightarrow> found_names ev rest
      | Some f \<Rightarrow>
          (case names_of ev f of
             None \<Rightarrow> None
           | Some ns \<Rightarrow>
               (case found_names ev rest of None \<Rightarrow> None | Some ms \<Rightarrow> Some (ns \<union> ms))))"

definition strings :: "pyval list \<Rightarrow> string set" where
  "strings vs = set (List.map_filter (\<lambda>v. case v of Str n \<Rightarrow> Some n | _ \<Rightarrow> None) vs)"

definition get_new_symbols :: "evaluator \<Rightarrow> pydict list \<Rightarrow> pyval list \<Rightarrow> error + string set" where
  "get_new_symbols ev data known =
     (case found_names ev data of
        None \<Rightarrow> Inl SyntaxError
      | Some found \<Rightarrow> Inr (found - (symtable ev \<union> strings known)))"

text \<open>\<open>get_new_symbols(data.values(), set(data))\<close>, as all three callers write it.\<close>

definition new_symbols_of :: "evaluator \<Rightarrow> (pyval \<times> pydict) list \<Rightarrow> error + string set" where
  "new_symbols_of ev data =
     get_new_symbols ev (map snd (dict_items data)) (map fst (dict_items data))"

section \<open>Project parameters\<close>

definition load_project :: "state \<Rightarrow> (pyval \<times> pydict) list" where
  "load_project s = rev (map (\<lambda>r. reformat (pp_dict r)) (projectparameter s))"

definition static_project :: "state \<Rightarrow> string set option \<Rightarrow> (string \<times> amount option) list" where
  "static_project s only =
     (let result = rev (map (\<lambda>r. (pp_name r, pp_amount r)) (projectparameter s))
      in case only of None \<Rightarrow> result | Some ns \<Rightarrow> filter (\<lambda>kv. fst kv \<in> ns) result)"

text \<open>
  The loop \<open>for key, value in data.items(): ProjectParameter.update(amount=value['amount'])
  .where(ProjectParameter.name == key)\<close>: a row is written when its name column is one of
  the keys of \<open>data\<close> (a key that is no string matches no name), and the trigger stamps
  the group when a row is written.
\<close>

definition write_project :: "(pyval \<times> pydict) list \<Rightarrow> (pyval \<Rightarrow> amount) \<Rightarrow> state \<Rightarrow> state" where
  "write_project data amounts s =
     (let s1 = s\<lparr>projectparameter :=
                  map (\<lambda>r. if Str (pp_name r) \<in> set (map fst data)
                            then r\<lparr>pp_amount := Some (amounts (Str (pp_name r)))\<rparr> else r)
                    (projectparameter s)\<rparr>
      in if \<exists>r \<in> set (projectparameter s). Str (pp_name r) \<in> set (map fst data)
         then touch ''project'' s1 else s1)"

definition recalculate_project :: "evaluator \<Rightarrow> state \<Rightarrow> outcome" where
  "recalculate_project ev s =
     (if \<not> expired s ''project'' then Returns s
      else
        let data = load_project s in
        if data = [] then Returns s
        else
          case evaluate_and_set_amount_field ev (dict_items data) None of
            Inl msg \<Rightarrow> Raises (EvaluatorError msg) s
          | Inr amounts \<Rightarrow>
              (let s1 = write_project data amounts s;
                   (g, s2) = group_get_or_create ''project'' s1
               in Returns (expire_downstream ''project'' (freshen g s2))))"

text \<open>
  \<open>if ProjectParameter.expired(): ProjectParameter.recalculate()\<close>, the first statement
  of \<open>DatabaseParameter.recalculate\<close> and of \<open>ParameterManager.recalculate\<close>.
\<close>

definition refresh_project :: "evaluator \<Rightarrow> state \<Rightarrow> outcome" where
  "refresh_project ev s = (if expired s ''project'' then recalculate_project ev s else Returns s)"

section \<open>Database parameters\<close>

text \<open>The rows of \<open>DatabaseParameter.select().where(DatabaseParameter.database == database)\<close>.\<close>

definition database_rows :: "state \<Rightarrow> string \<Rightarrow> dparam list" where
  "database_rows s db = filter (\<lambda>r. dp_database r = db) (databaseparameter s)"

definition load_database :: "state \<Rightarrow> string \<Rightarrow> (pyval \<times> pydict) list" where
  "load_database s db = rev (map (\<lambda>r. reformat (dp_dict r)) (database_rows s db))"

definition static_database :: "state \<Rightarrow> string \<Rightarrow> string set option \<Rightarrow> (string \<times> amount option) list" where
  "static_database s db only =
     (let result = rev (map (\<lambda>r. (dp_name r, dp_amount r)) (database_rows s db))
      in case only of None \<Rightarrow> result | Some ns \<Rightarrow> filter (\<lambda>kv. fst kv \<in> ns) result)"

text \<open>
  ``Add or delete \<open>project\<close> dependency if needed'': the edge \<open>(database, project)\<close> is there
  after the step exactly when the database uses a project parameter.
\<close>

definition database_dependency :: "string \<Rightarrow> string set \<Rightarrow> state \<Rightarrow> outcome" where
  "database_dependency db new_symbols s =
     (if new_symbols \<noteq> {} then gd_get_or_create (db, ''project'') s
      else Returns (s\<lparr>groupdependency :=
                        filter (\<lambda>e. \<not> (fst e = db \<and> snd e = ''project'')) (groupdependency s)\<rparr>))"

definition write_database :: "string \<Rightarrow> (pyval \<times> pydict) list \<Rightarrow> (pyval \<Rightarrow> amount) \<Rightarrow> state \<Rightarrow> state" where
  "write_database db data amounts s =
     (let s1 = s\<lparr>databaseparameter :=
                  map (\<lambda>r. if dp_database r = db \<and> Str (dp_name r) \<in> set (map fst data)
                            then r\<lparr>dp_amount := Some (amounts (Str (dp_name r)))\<rparr> else r)
                    (databaseparameter s)\<rparr>
      in if \<exists>r \<in> set (database_rows s db). Str (dp_name r) \<in> set (map fst data)
         then touch db s1 else s1)"

definition update_database :: "string \<Rightarrow> (pyval \<times> pydict) list \<Rightarrow> (pyval \<Rightarrow> amount) \<Rightarrow> state
    \<Rightarrow> outcome" where
  "update_database db data amounts s =
     atomic s
       (let s1 = write_database db data amounts s
        in case group_get s1 db of
             None \<Rightarrow> Raises DoesNotExist s1
           | Some g \<Rightarrow> Returns (expire_downstream db (freshen g s1)))"

definition recalculate_database :: "evaluator \<Rightarrow> string \<Rightarrow> state \<Rightarrow> outcome" where
  "recalculate_database ev db s =
     (case refresh_project ev s of
        Raises e s' \<Rightarrow> Raises e s'
      | Returns s1 \<Rightarrow>
          if \<not> expired s1 db then Returns s1
          else
            let data = load_database s1 db in
            if data = [] then Returns s1
            else
              case new_symbols_of ev data of
                Inl e \<Rightarrow> Raises e s1
              | Inr new_symbols \<Rightarrow>
                  let missing = new_symbols - set (map pp_name (projectparameter s1)) in
                  if missing \<noteq> {} then Raises (MissingName missing) s1
                  else
                    case database_dependency db new_symbols s1 of
                      Raises e s' \<Rightarrow> Raises e s'
                    | Returns s2 \<Rightarrow>
                        let glo = (if new_symbols \<noteq> {}
                                   then Some (static_project s2 (Some new_symbols)) else None)
                        in case evaluate_and_set_amount_field ev (dict_items data) glo of
                             Inl msg \<Rightarrow> Raises (EvaluatorError msg) s2
                           | Inr amounts \<Rightarrow> update_database db data amounts s2)"

section \<open>Activity parameters\<close>

text \<open>The rows of \<open>ActivityParameter.select().where(ActivityParameter.group == group)\<close>.\<close>

definition activity_rows :: "state \<Rightarrow> string \<Rightarrow> aparam list" where
  "activity_rows s grp = filter (\<lambda>r. ap_group r = grp) (activityparameter s)"

definition load_activity :: "state \<Rightarrow> string \<Rightarrow> (pyval \<times> pydict) list" where
  "load_activity s grp = rev (map (\<lambda>r. reformat (ap_dict r)) (activity_rows s grp))"

datatype kind = Project | Database | Activity

record chain_entry =
  ce_kind :: kind
  ce_group :: string
  ce_names :: "string set"

text \<open>
  \<open>ActivityParameter.static(group, only)\<close> without \<open>full\<close>; the variant with \<open>full=True\<close>
  comes after \<open>static_dependencies\<close>.
\<close>

definition static_activity :: "state \<Rightarrow> string \<Rightarrow> string set option \<Rightarrow> (string \<times> amount option) list" where
  "static_activity s grp only =
     (let result = rev (map (\<lambda>r. (ap_name r, ap_amount r)) (activity_rows s grp))
      in case only of None \<Rightarrow> result | Some ns \<Rightarrow> filter (\<lambda>kv. fst kv \<in> ns) result)"

text \<open>
  The loop over \<open>Group.get(name=group).order\<close> in \<open>dependency_chain\<close>: the names of
  \<open>needed\<close> that \<open>new_group\<close> defines leave \<open>needed\<close>, and make an entry when there are any.
\<close>

fun search_order :: "state \<Rightarrow> string list \<Rightarrow> chain_entry list \<Rightarrow> string set
    \<Rightarrow> chain_entry list \<times> string set" where
  "search_order s [] chain needed = (chain, needed)"
| "search_order s (new_group # rest) chain needed =
     (let names = set (map fst (static_activity s new_group (Some needed)))
      in search_order s rest
           (if names \<noteq> {}
            then chain @ [\<lparr>ce_kind = Activity, ce_group = new_group, ce_names = names\<rparr>]
            else chain)
           (needed - names))"

definition search_database :: "state \<Rightarrow> string \<Rightarrow> chain_entry list \<Rightarrow> string set
    \<Rightarrow> chain_entry list \<times> string set" where
  "search_database s database chain needed =
     (if needed \<noteq> {} then
        (let names = set (map fst (static_database s database (Some needed)))
         in (if names \<noteq> {}
             then chain @ [\<lparr>ce_kind = Database, ce_group = database, ce_names = names\<rparr>]
             else chain,
             needed - names))
      else (chain, needed))"

definition search_project :: "state \<Rightarrow> chain_entry list \<Rightarrow> string set
    \<Rightarrow> chain_entry list \<times> string set" where
  "search_project s chain needed =
     (if needed \<noteq> {} then
        (let names = set (map fst (static_project s (Some needed)))
         in (if names \<noteq> {}
             then chain @ [\<lparr>ce_kind = Project, ce_group = ''project'', ce_names = names\<rparr>]
             else chain,
             needed - names))
      else (chain, needed))"

text \<open>
  \<open>ActivityParameter.dependency_chain\<close>. \<open>Group.get\<close> raises \<open>DoesNotExist\<close> when the
  group has no row; \<open>ActivityParameter.get(group=group)\<close> is the first row of the group,
  which is there because \<open>data\<close> is not empty. The database is searched only
  \<open>if needed:\<close>, which \<open>search_database\<close> asks itself.
\<close>

definition dependency_chain :: "evaluator \<Rightarrow> state \<Rightarrow> string \<Rightarrow> error + chain_entry list" where
  "dependency_chain ev s grp =
     (let data = load_activity s grp in
      if data = [] then Inr []
      else
        (case new_symbols_of ev data of
           Inl e \<Rightarrow> Inl e
         | Inr needed \<Rightarrow>
             if needed = {} then Inr []
             else
               (case group_get s grp of
                  None \<Rightarrow> Inl DoesNotExist
                | Some g \<Rightarrow>
                    (case activity_rows s grp of
                       [] \<Rightarrow> Inl DoesNotExist
                     | first # others \<Rightarrow>
                         (let (chain1, needed1) = search_order s (g_order g) [] needed;
                              (chain2, needed2) =
                                 search_database s (ap_database first) chain1 needed1;
                              (chain3, needed3) = search_project s chain2 needed2
                          in if needed3 \<noteq> {} then Inl (MissingName needed3)
                             else Inr chain3)))))"

text \<open>\<open>mapping[row['kind']].static(row['group'], only=row['names'])\<close>.\<close>

definition static_of :: "state \<Rightarrow> chain_entry \<Rightarrow> (string \<times> amount option) list" where
  "static_of s row =
     (case ce_kind row of
        Project \<Rightarrow> static_project s (Some (ce_names row))
      | Database \<Rightarrow> static_database s (ce_group row) (Some (ce_names row))
      | Activity \<Rightarrow> static_activity s (ce_group row) (Some (ce_names row)))"

definition static_dependencies :: "evaluator \<Rightarrow> state \<Rightarrow> string
    \<Rightarrow> error + (string \<times> amount option) list" where
  "static_dependencies ev s grp =
     (case dependency_chain ev s grp of
        Inl e \<Rightarrow> Inl e
      | Inr chain \<Rightarrow> Inr (foldl (\<lambda>result row. static_of s row @ result) [] chain))"

definition static_activity_full :: "evaluator \<Rightarrow> state \<Rightarrow> string
    \<Rightarrow> error + (string \<times> amount option) list" where
  "static_activity_full ev s grp =
     (case static_dependencies ev s grp of
        Inl e \<Rightarrow> Inl e
      | Inr deps \<Rightarrow> Inr (deps @ static_activity s grp None))"

text \<open>
  ``Reset dependencies and dependency order'', guarded by \<open>if chain:\<close>. \<open>obj.save()\<close>
  purges the new order; the old edges of the group are deleted and the new ones
  inserted in one statement.
\<close>

definition reset_dependencies :: "string \<Rightarrow> chain_entry list \<Rightarrow> state \<Rightarrow> outcome" where
  "reset_dependencies grp chain s =
     (if chain \<noteq> [] then
        (case group_get s grp of
           None \<Rightarrow> Raises DoesNotExist s
         | Some obj \<Rightarrow>
             (let s1 = group_save
                    (obj\<lparr>g_order := map ce_group (filter (\<lambda>row. ce_kind row = Activity) chain)\<rparr>) s;
                  s2 = s1\<lparr>groupdependency := filter (\<lambda>e. fst e \<noteq> grp) (groupdependency s1)\<rparr>
              in gd_insert_many (map (\<lambda>row. (grp, ce_group row)) chain) s2))
      else Returns s)"

text \<open>
  \<open>recalculate_exchanges\<close>. The module never imports \<open>ExchangeDataset\<close>, so the body of the
  loop over the \<open>ParameterizedExchange\<close> rows of the group raises \<open>NameError\<close> at its
  first row. \<open>ActivityParameter.get(group=group)\<close> raises when the group has no parameter.
\<close>

definition recalculate_exchanges :: "evaluator \<Rightarrow> string \<Rightarrow> state \<Rightarrow> outcome" where
  "recalculate_exchanges ev grp s =
     (case static_activity_full ev s grp of
        Inl e \<Rightarrow> Raises e s
      | Inr symbols \<Rightarrow>
          if filter (\<lambda>obj. pe_group obj = grp) (parameterizedexchange s) \<noteq> []
          then Raises (NameError ''ExchangeDataset'') s
          else
            (case activity_rows s grp of
               [] \<Rightarrow> Raises DoesNotExist s
             | first # others \<Rightarrow> Returns (s\<lparr>dirty := dirty s @ [ap_database first]\<rparr>)))"

text \<open>
  ``Update activity parameter values'': the part of \<open>ActivityParameter.recalculate\<close>
  after the loop over the upstream groups.
\<close>

definition write_amounts :: "string \<Rightarrow> (pyval \<times> pydict) list \<Rightarrow> (pyval \<Rightarrow> amount) \<Rightarrow> state \<Rightarrow> state" where
  "write_amounts grp data amounts s =
     (let s1 = s\<lparr>activityparameter :=
                  map (\<lambda>r. if ap_group r = grp \<and> Str (ap_name r) \<in> set (map fst data)
                            then r\<lparr>ap_amount := Some (amounts (Str (ap_name r)))\<rparr> else r)
                    (activityparameter s)\<rparr>
      in if \<exists>r \<in> set (activity_rows s grp). Str (ap_name r) \<in> set (map fst data)
         then touch grp s1 else s1)"

definition write_activity :: "string \<Rightarrow> (pyval \<times> pydict) list \<Rightarrow> (pyval \<Rightarrow> amount) \<Rightarrow> state
    \<Rightarrow> outcome" where
  "write_activity grp data amounts s =
     atomic s
       (let s1 = write_amounts grp data amounts s
        in case group_get s1 grp of
             None \<Rightarrow> Raises DoesNotExist s1
           | Some g \<Rightarrow> Returns (expire_downstream grp (freshen g s1)))"

definition update_activity :: "evaluator \<Rightarrow> string \<Rightarrow> state \<Rightarrow> outcome" where
  "update_activity ev grp s =
     (let data = load_activity s grp in
      case static_dependencies ev s grp of
        Inl e \<Rightarrow> Raises e s
      | Inr static \<Rightarrow>
          (case evaluate_and_set_amount_field ev (dict_items data) (Some static) of
             Inl msg \<Rightarrow> Raises (EvaluatorError msg) s
           | Inr amounts \<Rightarrow>
               (case write_activity grp data amounts s of
                  Raises e s' \<Rightarrow> Raises e s'
                | Returns s' \<Rightarrow> recalculate_exchanges ev grp s')))"

text \<open>
  \<open>ActivityParameter.recalculate\<close> calls itself through the chain, and nothing in the code
  bounds the depth, so the model takes fuel: \<open>None\<close> is a call that has not come back
  within the given depth of nested calls.
\<close>

fun recalculate_activity :: "nat \<Rightarrow> evaluator \<Rightarrow> string \<Rightarrow> state \<Rightarrow> outcome option"
  and recalculate_chain :: "nat \<Rightarrow> evaluator \<Rightarrow> chain_entry list \<Rightarrow> state \<Rightarrow> outcome option" where
  "recalculate_activity 0 ev grp s = None"
| "recalculate_activity (Suc n) ev grp s =
     (if \<not> expired s grp then Some (Returns s)
      else
        (case dependency_chain ev s grp of
           Inl e \<Rightarrow> Some (Raises e s)
         | Inr chain \<Rightarrow>
             (case reset_dependencies grp chain s of
                Raises e s1 \<Rightarrow> Some (Raises e s1)
              | Returns s1 \<Rightarrow>
                  (case recalculate_chain n ev (rev chain) s1 of
                     None \<Rightarrow> None
                   | Some (Raises e s2) \<Rightarrow> Some (Raises e s2)
                   | Some (Returns s2) \<Rightarrow> Some (update_activity ev grp s2)))))"
| "recalculate_chain n ev [] s = Some (Returns s)"
| "recalculate_chain n ev (row # rows) s =
     (case (case ce_kind row of
              Project \<Rightarrow> Some (recalculate_project ev s)
            | Database \<Rightarrow> Some (recalculate_database ev (ce_group row) s)
            | Activity \<Rightarrow> recalculate_activity n ev (ce_group row) s) of
        None \<Rightarrow> None
      | Some (Raises e s') \<Rightarrow> Some (Raises e s')
      | Some (Returns s') \<Rightarrow> recalculate_chain n ev rows s')"

section \<open>The parameter manager\<close>

subsection \<open>The sweep \<open>ParameterManager.recalculate\<close>\<close>




subsection \<open>Bulk replacement\<close>

text \<open>
  A row of the input of \<open>new_project_parameters\<close> and \<open>new_database_parameters\<close>, and of
  \<open>new_activity_parameters\<close>. A missing \<open>amount\<close> or \<open>formula\<close> key is \<open>None\<close>;
  \<open>reformat\<close> stores \<open>0\<close> for a missing amount, and what is left of the row after the
  \<open>pop\<close>s goes into \<open>data\<close>.
\<close>

record new_param =
  np_name :: string
  np_amount :: "amount option"
  np_formula :: "string option"
  np_extra :: pydict

record new_activity_param =
  nap_database :: string
  nap_code :: string
  nap_name :: string
  nap_formula :: "string option"
  nap_amount :: "amount option"
  nap_extra :: pydict

definition without :: "string list \<Rightarrow> pydict \<Rightarrow> pydict" where
  "without popped ds = filter (\<lambda>kv. fst kv \<notin> set popped) ds"

definition default_amount :: "amount option \<Rightarrow> amount option" where
  "default_amount a = Some (case a of None \<Rightarrow> 0 | Some x \<Rightarrow> x)"

text \<open>
  The inserts run inside the \<open>atomic\<close> block, in slices of 100 rows; a refused row ends
  the block, so the slices are not told apart. Each table has its unique index and its
  \<open>CHECK\<close> constraint, and the triggers of \<open>activityparameter\<close> run before the row is
  written.
\<close>

definition pp_insert :: "pparam \<Rightarrow> state \<Rightarrow> outcome" where
  "pp_insert new s =
     (if pp_name new \<in> set (map pp_name (projectparameter s))
        then Raises (IntegrityError ''UNIQUE constraint failed'') s
      else Returns (touch ''project'' (s\<lparr>projectparameter := projectparameter s @ [new]\<rparr>)))"

definition dp_insert :: "dparam \<Rightarrow> state \<Rightarrow> outcome" where
  "dp_insert new s =
     (if dp_database new = ''project''
        then Raises (IntegrityError ''CHECK constraint failed'') s
      else if \<exists>r \<in> set (databaseparameter s). dp_database r = dp_database new \<and> dp_name r = dp_name new
        then Raises (IntegrityError ''UNIQUE constraint failed'') s
      else Returns (touch (dp_database new) (s\<lparr>databaseparameter := databaseparameter s @ [new]\<rparr>)))"

definition ap_insert :: "aparam \<Rightarrow> state \<Rightarrow> outcome" where
  "ap_insert new s =
     (if activity_rows s (ap_group new) \<noteq> []
         \<and> ap_database new \<notin> set (map ap_database (activity_rows s (ap_group new)))
        then Raises (IntegrityError ''Cross database group'') s
      else if \<exists>a \<in> set (activityparameter s).
                 ap_database a = ap_database new \<and> ap_code a = ap_code new \<and> ap_group a \<noteq> ap_group new
        then Raises (IntegrityError ''Cross group activity'') s
      else if ap_group new = ''project'' \<or> ap_group new = ap_database new
        then Raises (IntegrityError ''CHECK constraint failed'') s
      else if \<exists>a \<in> set (activityparameter s). ap_group a = ap_group new \<and> ap_name a = ap_name new
        then Raises (IntegrityError ''UNIQUE constraint failed'') s
      else Returns (touch (ap_group new) (s\<lparr>activityparameter := activityparameter s @ [new]\<rparr>)))"

fun insert_rows :: "('r \<Rightarrow> state \<Rightarrow> outcome) \<Rightarrow> 'r list \<Rightarrow> state \<Rightarrow> outcome" where
  "insert_rows ins [] s = Returns s"
| "insert_rows ins (new # rows) s =
     (case ins new s of
        Raises e s' \<Rightarrow> Raises e s'
      | Returns s' \<Rightarrow> insert_rows ins rows s')"

text \<open>The \<open>DELETE\<close> statements; the trigger stamps the group of every deleted row.\<close>

definition delete_project :: "state \<Rightarrow> state" where
  "delete_project s =
     (if projectparameter s = [] then s else touch ''project'' (s\<lparr>projectparameter := []\<rparr>))"

definition delete_database :: "string \<Rightarrow> state \<Rightarrow> state" where
  "delete_database db s =
     (if database_rows s db = [] then s
      else touch db (s\<lparr>databaseparameter := filter (\<lambda>r. dp_database r \<noteq> db) (databaseparameter s)\<rparr>))"

definition delete_activity :: "(aparam \<Rightarrow> bool) \<Rightarrow> state \<Rightarrow> state" where
  "delete_activity sel s =
     foldr touch (map ap_group (filter sel (activityparameter s)))
       (s\<lparr>activityparameter := filter (\<lambda>r. \<not> sel r) (activityparameter s)\<rparr>)"

definition new_project_parameters :: "evaluator \<Rightarrow> new_param list \<Rightarrow> state \<Rightarrow> outcome" where
  "new_project_parameters ev data s =
     (if card (set (map np_name data)) \<noteq> length data
        then Raises (AssertionError ''Nonunique names'') s
      else
        atomic s
          (case insert_rows pp_insert
                  (map (\<lambda>ds. \<lparr>pp_name = np_name ds, pp_formula = np_formula ds,
                               pp_amount = default_amount (np_amount ds),
                               pp_data = without [''name'', ''amount'', ''formula''] (np_extra ds)\<rparr>)
                     data)
                  (delete_project s) of
             Raises e s' \<Rightarrow> Raises e s'
           | Returns s1 \<Rightarrow>
               (let (g, s2) = group_get_or_create ''project'' s1
                in recalculate_project ev (expire g s2))))"

definition new_database_parameters :: "evaluator \<Rightarrow> new_param list \<Rightarrow> string \<Rightarrow> state \<Rightarrow> outcome" where
  "new_database_parameters ev data database s =
     (if database \<notin> set (databases s) then Raises (AssertionError ''Unknown database'') s
      else if card (set (map np_name data)) \<noteq> length data
        then Raises (AssertionError ''Nonunique names'') s
      else
        atomic s
          (case insert_rows dp_insert
                  (map (\<lambda>ds. \<lparr>dp_database = database, dp_name = np_name ds,
                               dp_formula = np_formula ds,
                               dp_amount = default_amount (np_amount ds),
                               dp_data = without [''name'', ''amount'', ''formula''] (np_extra ds)\<rparr>)
                     data)
                  (delete_database database s) of
             Raises e s' \<Rightarrow> Raises e s'
           | Returns s1 \<Rightarrow>
               (let (g, s2) = group_get_or_create database s1
                in recalculate_database ev database (expire g s2))))"

text \<open>
  \<open>database.pop() in databases\<close> is asked of a set that has one element, so it is the
  same as asking it of every element.
\<close>

definition new_activity_parameters :: "nat \<Rightarrow> evaluator \<Rightarrow> new_activity_param list \<Rightarrow> string
    \<Rightarrow> state \<Rightarrow> outcome option" where
  "new_activity_parameters n ev data grp s =
     (if card (set (map nap_database data)) \<noteq> 1
        then Some (Raises (AssertionError ''Multiple databases'') s)
      else if \<not> set (map nap_database data) \<subseteq> set (databases s)
        then Some (Raises (AssertionError ''Unknown database'') s)
      else if card (set (map nap_name data)) \<noteq> length data
        then Some (Raises (AssertionError ''Nonunique names'') s)
      else
        (let s0 = snd (group_get_or_create grp s) in
         map_option (atomic s0)
           (case insert_rows ap_insert
                   (map (\<lambda>ds. \<lparr>ap_group = grp, ap_database = nap_database ds,
                                ap_code = nap_code ds, ap_name = nap_name ds,
                                ap_formula = nap_formula ds,
                                ap_amount = default_amount (nap_amount ds),
                                ap_data = without [''database'', ''code'', ''name'', ''formula'',
                                                   ''amount''] (nap_extra ds)\<rparr>)
                      data)
                   (delete_activity (\<lambda>r. ap_group r = grp) s0) of
              Raises e s' \<Rightarrow> Some (Raises e s')
            | Returns s1 \<Rightarrow>
                (let (g, s2) = group_get_or_create grp s1
                 in recalculate_activity n ev grp (expire g s2)))))"

subsection \<open>Moving an activity's parameters into a group\<close>

definition get_activity :: "state \<Rightarrow> string \<times> string \<Rightarrow> activity option" where
  "get_activity s key = find (\<lambda>a. a_database a = fst key \<and> a_code a = snd key) (activities s)"

text \<open>
  \<open>add_exchanges_to_group\<close>. \<open>ParameterizedExchange.group\<close> and \<open>.formula\<close> are
  \<open>TextField()\<close>s without \<open>null=True\<close>, so \<open>get_or_create(exchange=...)\<close> cannot create the
  row it does not find; when it finds one, the next line assigns to an item of a model
  instance, which has no item assignment. The lines after it, the first of which reads the
  unbound name \<open>formula\<close>, are never reached.
\<close>

fun add_exchanges :: "string \<Rightarrow> exchange list \<Rightarrow> state \<Rightarrow> outcome" where
  "add_exchanges grp [] s = Returns s"
| "add_exchanges grp (exc # rest) s =
     (case x_formula exc of
        None \<Rightarrow> add_exchanges grp rest s
      | Some f \<Rightarrow>
          if \<exists>row \<in> set (parameterizedexchange s). pe_exchange row = x_id exc
          then Raises (TypeError ''object does not support item assignment'') s
          else Raises (IntegrityError ''NOT NULL constraint failed'') s)"

definition add_exchanges_to_group :: "string \<Rightarrow> string \<times> string \<Rightarrow> state \<Rightarrow> outcome" where
  "add_exchanges_to_group grp key s =
     (case get_activity s key of
        None \<Rightarrow> Raises DoesNotExist s
      | Some act \<Rightarrow> add_exchanges grp (a_exchanges act) s)"

text \<open>
  \<open>ActivityParameter.create(**row)\<close> is \<open>save\<close>: the group is expired (and created when it
  is missing), then the row is inserted.
\<close>

definition ap_create :: "aparam \<Rightarrow> state \<Rightarrow> outcome" where
  "ap_create new s =
     (let (g, s1) = group_get_or_create (ap_group new) s in ap_insert new (expire g s1))"

text \<open>\<open>add_to_group\<close>; the row count it returns at the end is not modelled.\<close>

definition add_to_group :: "string \<Rightarrow> string \<times> string \<Rightarrow> state \<Rightarrow> outcome" where
  "add_to_group grp key s =
     (let s1 = snd (group_get_or_create grp s) in
      case get_activity s1 key of
        None \<Rightarrow> Raises DoesNotExist s1
      | Some act \<Rightarrow>
          (case a_parameters act of
             None \<Rightarrow> Returns s1
           | Some ps \<Rightarrow>
               (let s2 = delete_activity
                      (\<lambda>r. ap_database r = a_database act \<and> ap_code r = a_code act) s1
                in case atomic s2
                     (insert_rows ap_create
                        (map (\<lambda>p. \<lparr>ap_group = grp, ap_database = a_database act,
                                    ap_code = a_code act, ap_name = rp_variable p,
                                    ap_formula = rp_formula p,
                                    ap_amount = default_amount (rp_amount p),
                                    ap_data = without [''variable'', ''amount'', ''formula'']
                                                (rp_extra p)\<rparr>) ps) s2) of
                     Raises e s' \<Rightarrow> Raises e s'
                   | Returns s3 \<Rightarrow>
                       add_exchanges_to_group grp key
                         (s3\<lparr>activities :=
                              map (\<lambda>a. if a_database a = a_database act \<and> a_code a = a_code act
                                        then a\<lparr>a_parameters := None\<rparr> else a)
                                (activities s3)\<rparr>))))"

section \<open>Predicates and example states\<close>

text \<open>A group is fresh when it has a row and the row says so.\<close>

definition fresh_group :: "state \<Rightarrow> string \<Rightarrow> bool" where
  "fresh_group s n = (case group_get s n of Some g \<Rightarrow> g_fresh g | None \<Rightarrow> False)"

definition empty_state :: state where
  "empty_state =
     \<lparr>projectparameter = [], databaseparameter = [], activityparameter = [],
      parameterizedexchange = [], group_table = [], groupdependency = [],
      databases = [], activities = [], dirty = [], clock = 0\<rparr>"

definition group_of :: "string \<Rightarrow> bool \<Rightarrow> string list \<Rightarrow> group_row" where
  "group_of n f ord = \<lparr>g_name = n, g_fresh = f, g_updated = 0, g_order = ord\<rparr>"

text \<open>
  A toy evaluator: a formula is a string that is one identifier, nothing is built in,
  and every amount comes out as \<open>1\<close>.
\<close>

definition name_evaluator :: evaluator where
  "name_evaluator =
     \<lparr>symtable = {}, names_of = (\<lambda>v. case v of Str f \<Rightarrow> Some {f} | _ \<Rightarrow> None),
      evaluate_and_set_amount_field = (\<lambda>data glo. Inr (\<lambda>n. 1))\<rparr>"

text \<open>
  Project parameter \<open>a\<close>, database \<open>db1\<close> with \<open>b = a\<close>, activity group \<open>A\<close> with
  \<open>c = b\<close>; every group fresh, every edge in place.
\<close>

definition settled_state :: state where
  "settled_state =
     empty_state
       \<lparr>projectparameter := [\<lparr>pp_name = ''a'', pp_formula = None, pp_amount = Some 2, pp_data = []\<rparr>],
        databaseparameter :=
          [\<lparr>dp_database = ''db1'', dp_name = ''b'', dp_formula = Some ''a'', dp_amount = Some 2, dp_data = []\<rparr>],
        activityparameter :=
          [\<lparr>ap_group = ''A'', ap_database = ''db1'', ap_code = ''x'', ap_name = ''c'',
            ap_formula = Some ''b'', ap_amount = Some 2, ap_data = []\<rparr>],
        group_table := [group_of ''project'' True [], group_of ''db1'' True [], group_of ''A'' True []],
        groupdependency := [(''db1'', ''project''), (''A'', ''db1'')],
        databases := [''db1'']\<rparr>"

text \<open>The project group is stale, and the database \<open>db1\<close> has no group row.\<close>

definition stale_project_state :: state where
  "stale_project_state =
     empty_state
       \<lparr>projectparameter := [\<lparr>pp_name = ''a'', pp_formula = None, pp_amount = Some 2, pp_data = []\<rparr>],
        group_table := [group_of ''project'' False []],
        databases := [''db1'']\<rparr>"

text \<open>The edges \<open>A \<rightarrow> B \<rightarrow> C\<close>.\<close>

definition path_state :: state where
  "path_state = empty_state\<lparr>groupdependency := [(''A'', ''B''), (''B'', ''C'')]\<rparr>"

text \<open>
  An activity of \<open>db1\<close> that carries one parameter and one exchange with a formula.
\<close>

definition activity_state :: state where
  "activity_state =
     empty_state
       \<lparr>databases := [''db1''],
        activities :=
          [\<lparr>a_database = ''db1'', a_code = ''x'',
            a_parameters = Some [\<lparr>rp_variable = ''c'', rp_formula = None, rp_amount = Some 3, rp_extra = []\<rparr>],
            a_exchanges = [\<lparr>x_id = 7, x_formula = Some ''c''\<rparr>]\<rparr>]\<rparr>"

text \<open>Two batches that fail validation: a name used twice, and two databases.\<close>

definition twice :: "new_param list" where
  "twice = [\<lparr>np_name = ''a'', np_amount = Some 1, np_formula = None, np_extra = []\<rparr>,
            \<lparr>np_name = ''a'', np_amount = Some 2, np_formula = None, np_extra = []\<rparr>]"

definition two_databases :: "new_activity_param list" where
  "two_databases =
     [\<lparr>nap_database = ''db1'', nap_code = ''x'', nap_name = ''c'', nap_formula = None,
       nap_amount = None, nap_extra = []\<rparr>,
      \<lparr>nap_database = ''db2'', nap_code = ''y'', nap_name = ''d'', nap_formula = None,
       nap_amount = None, nap_extra = []\<rparr>]"

section \<open>What the dependency chain is meant to be\<close>

text \<open>
  The free symbols of a scope, in the words of the specification: the names that the
  formulas of its parameters use and that neither the interpreter nor the scope itself
  defines. The formulas and the names are those of the columns of the rows.
\<close>

definition formulas_parse :: "evaluator \<Rightarrow> string option list \<Rightarrow> bool" where
  "formulas_parse ev fs \<longleftrightarrow> list_all (\<lambda>f. names_of ev (Str f) \<noteq> None) (List.map_filter id fs)"

definition used_names :: "evaluator \<Rightarrow> string option list \<Rightarrow> string set" where
  "used_names ev fs =
     \<Union> (set (map (\<lambda>f. case names_of ev (Str f) of None \<Rightarrow> {} | Some ns \<Rightarrow> ns)
               (List.map_filter id fs)))"

definition free_symbols :: "evaluator \<Rightarrow> state \<Rightarrow> string \<Rightarrow> string set" where
  "free_symbols ev s grp =
     used_names ev (map ap_formula (activity_rows s grp))
       - symtable ev - set (map ap_name (activity_rows s grp))"

definition database_symbols :: "evaluator \<Rightarrow> state \<Rightarrow> string \<Rightarrow> string set" where
  "database_symbols ev s db =
     used_names ev (map dp_formula (database_rows s db))
       - symtable ev - set (map dp_name (database_rows s db))"

text \<open>
  The rows of a scope are plain when no two of them have the same name, which the unique
  indexes of the tables see to, and no pickled \<open>data\<close> has the key \<open>name\<close> or \<open>formula\<close>.
\<close>

definition plain :: "(string \<times> pydict) list \<Rightarrow> bool" where
  "plain rows \<longleftrightarrow>
     distinct (map fst rows)
     \<and> list_all (\<lambda>r. map_of (snd r) ''name'' = None \<and> map_of (snd r) ''formula'' = None) rows"

definition plain_activity :: "state \<Rightarrow> string \<Rightarrow> bool" where
  "plain_activity s grp = plain (map (\<lambda>r. (ap_name r, ap_data r)) (activity_rows s grp))"

definition plain_database :: "state \<Rightarrow> string \<Rightarrow> bool" where
  "plain_database s db = plain (map (\<lambda>r. (dp_name r, dp_data r)) (database_rows s db))"

text \<open>
  The statement of the resolution order, in the words of the specification: the scopes
  are searched in the order ``sibling activity groups as listed in the group's \<open>order\<close>,
  then the owning database, then the project'', a symbol is resolved at the first scope
  of that path which defines it, and the chain lists, in the order of the path, the
  scopes at which some symbol is resolved, each with the symbols resolved there.
  The unresolved symbols are those no scope of the path defines. The owning database is
  the database of the parameters of the group; a group without parameters has none.
\<close>

definition defined_names :: "state \<Rightarrow> kind \<times> string \<Rightarrow> string set" where
  "defined_names s scope =
     (case fst scope of
        Activity \<Rightarrow> set (map ap_name (activity_rows s (snd scope)))
      | Database \<Rightarrow> set (map dp_name (database_rows s (snd scope)))
      | Project \<Rightarrow> set (map pp_name (projectparameter s)))"

definition search_path :: "state \<Rightarrow> group_row \<Rightarrow> string \<Rightarrow> (kind \<times> string) list" where
  "search_path s g grp =
     map (Pair Activity) (g_order g)
     @ map (\<lambda>r. (Database, ap_database r)) (take 1 (activity_rows s grp))
     @ [(Project, ''project'')]"

definition resolved_at :: "state \<Rightarrow> (kind \<times> string) list \<Rightarrow> string set \<Rightarrow> nat \<Rightarrow> string set" where
  "resolved_at s path needed i =
     {n \<in> needed. n \<in> defined_names s (path ! i) \<and> (\<forall>j<i. n \<notin> defined_names s (path ! j))}"

definition first_match_chain :: "state \<Rightarrow> (kind \<times> string) list \<Rightarrow> string set \<Rightarrow> chain_entry list" where
  "first_match_chain s path needed =
     map (\<lambda>i. \<lparr>ce_kind = fst (path ! i), ce_group = snd (path ! i),
                ce_names = resolved_at s path needed i\<rparr>)
       (filter (\<lambda>i. resolved_at s path needed i \<noteq> {}) [0..<length path])"

definition unresolved :: "state \<Rightarrow> (kind \<times> string) list \<Rightarrow> string set \<Rightarrow> string set" where
  "unresolved s path needed = needed - \<Union>(defined_names s ` set path)"

text \<open>
  Group \<open>X\<close> uses \<open>a\<close>, \<open>b\<close> and \<open>c\<close>. Its sibling \<open>Y\<close> defines \<open>a\<close>, the database
  \<open>db1\<close> defines \<open>a\<close> and \<open>b\<close>, the project defines \<open>b\<close> and \<open>c\<close>; the sibling \<open>Z\<close>
  has no parameters.
\<close>

definition chain_state :: state where
  "chain_state =
     empty_state
       \<lparr>projectparameter :=
          [\<lparr>pp_name = ''b'', pp_formula = None, pp_amount = Some 1, pp_data = []\<rparr>,
           \<lparr>pp_name = ''c'', pp_formula = None, pp_amount = Some 1, pp_data = []\<rparr>],
        databaseparameter :=
          [\<lparr>dp_database = ''db1'', dp_name = ''a'', dp_formula = None, dp_amount = Some 2,
            dp_data = []\<rparr>,
           \<lparr>dp_database = ''db1'', dp_name = ''b'', dp_formula = None, dp_amount = Some 2,
            dp_data = []\<rparr>],
        activityparameter :=
          [\<lparr>ap_group = ''X'', ap_database = ''db1'', ap_code = ''x'', ap_name = ''p'',
            ap_formula = Some ''a'', ap_amount = None, ap_data = []\<rparr>,
           \<lparr>ap_group = ''X'', ap_database = ''db1'', ap_code = ''x'', ap_name = ''q'',
            ap_formula = Some ''b'', ap_amount = None, ap_data = []\<rparr>,
           \<lparr>ap_group = ''X'', ap_database = ''db1'', ap_code = ''x'', ap_name = ''r'',
            ap_formula = Some ''c'', ap_amount = None, ap_data = []\<rparr>,
           \<lparr>ap_group = ''Y'', ap_database = ''db1'', ap_code = ''y'', ap_name = ''a'',
            ap_formula = None, ap_amount = Some 3, ap_data = []\<rparr>],
        group_table :=
          [group_of ''project'' True [], group_of ''db1'' True [], group_of ''Y'' True [],
           group_of ''X'' False [''Y'', ''Z'']],
        databases := [''db1'']\<rparr>"

text \<open>
  States with a symbol that nothing defines. In \<open>missing_state\<close> it is the \<open>c\<close> of the
  group \<open>X\<close>. In the other two it is the \<open>a\<close> of the database \<open>db1\<close>, whose one parameter
  is \<open>b = a\<close> while the project has the parameter \<open>z\<close> only: once with every group
  fresh, once with the project group and the group of \<open>db1\<close> stale.
\<close>

definition missing_state :: state where
  "missing_state =
     chain_state
       \<lparr>projectparameter :=
          [\<lparr>pp_name = ''b'', pp_formula = None, pp_amount = Some 1, pp_data = []\<rparr>]\<rparr>"

definition fresh_missing_state :: state where
  "fresh_missing_state =
     settled_state
       \<lparr>projectparameter :=
          [\<lparr>pp_name = ''z'', pp_formula = None, pp_amount = Some 2, pp_data = []\<rparr>]\<rparr>"

definition stale_missing_state :: state where
  "stale_missing_state =
     fresh_missing_state
       \<lparr>group_table :=
          [group_of ''project'' False [], group_of ''db1'' False [], group_of ''A'' True []]\<rparr>"

text \<open>\<open>stale_missing_state\<close> after the project has been recalculated.\<close>

definition refreshed_missing_state :: state where
  "refreshed_missing_state =
     stale_missing_state
       \<lparr>projectparameter :=
          [\<lparr>pp_name = ''z'', pp_formula = None, pp_amount = Some 1, pp_data = []\<rparr>],
        group_table :=
          [group_of ''project'' True [], group_of ''db1'' False [], group_of ''A'' True []]\<rparr>"

text \<open>
  An activity of \<open>db1\<close> with the embedded parameters \<open>p = a\<close>, \<open>q = p\<close>, \<open>r = c\<close> and
  \<open>c\<close>, the last of which carries a key \<open>name\<close>; the project defines \<open>a\<close> and \<open>c\<close>.
\<close>

definition labelled_state :: state where
  "labelled_state =
     empty_state
       \<lparr>projectparameter :=
          [\<lparr>pp_name = ''a'', pp_formula = None, pp_amount = Some 1, pp_data = []\<rparr>,
           \<lparr>pp_name = ''c'', pp_formula = None, pp_amount = Some 1, pp_data = []\<rparr>],
        group_table := [group_of ''project'' True []],
        databases := [''db1''],
        activities :=
          [\<lparr>a_database = ''db1'', a_code = ''x'',
            a_parameters =
              Some [\<lparr>rp_variable = ''p'', rp_formula = Some ''a'', rp_amount = None,
                     rp_extra = []\<rparr>,
                    \<lparr>rp_variable = ''q'', rp_formula = Some ''p'', rp_amount = None,
                     rp_extra = []\<rparr>,
                    \<lparr>rp_variable = ''r'', rp_formula = Some ''c'', rp_amount = None,
                     rp_extra = []\<rparr>,
                    \<lparr>rp_variable = ''c'', rp_formula = None, rp_amount = Some 3,
                     rp_extra = [(''name'', Str ''carbon'')]\<rparr>],
            a_exchanges = []\<rparr>]\<rparr>"

text \<open>\<open>labelled_state\<close> after the activity has been added to the group \<open>X\<close>.\<close>

definition labelled_group_state :: state where
  "labelled_group_state =
     labelled_state
       \<lparr>activityparameter :=
          [\<lparr>ap_group = ''X'', ap_database = ''db1'', ap_code = ''x'', ap_name = ''p'',
            ap_formula = Some ''a'', ap_amount = Some 0, ap_data = []\<rparr>,
           \<lparr>ap_group = ''X'', ap_database = ''db1'', ap_code = ''x'', ap_name = ''q'',
            ap_formula = Some ''p'', ap_amount = Some 0, ap_data = []\<rparr>,
           \<lparr>ap_group = ''X'', ap_database = ''db1'', ap_code = ''x'', ap_name = ''r'',
            ap_formula = Some ''c'', ap_amount = Some 0, ap_data = []\<rparr>,
           \<lparr>ap_group = ''X'', ap_database = ''db1'', ap_code = ''x'', ap_name = ''c'',
            ap_formula = None, ap_amount = Some 3, ap_data = [(''name'', Str ''carbon'')]\<rparr>],
        group_table := [group_of ''project'' True [], group_of ''X'' False []],
        activities :=
          [\<lparr>a_database = ''db1'', a_code = ''x'', a_parameters = None, a_exchanges = []\<rparr>]\<rparr>"

text \<open>
  One step of the loop over \<open>chain[::-1]\<close>: \<open>mapping[row['kind']].recalculate(row['group'])\<close>.
\<close>

definition recalculate_row :: "nat \<Rightarrow> evaluator \<Rightarrow> chain_entry \<Rightarrow> state \<Rightarrow> outcome option" where
  "recalculate_row n ev row s =
     (case ce_kind row of
        Project \<Rightarrow> Some (recalculate_project ev s)
      | Database \<Rightarrow> Some (recalculate_database ev (ce_group row) s)
      | Activity \<Rightarrow> recalculate_activity n ev (ce_group row) s)"

text \<open>The names \<open>purge_order\<close> removes.\<close>

definition reserved :: "state \<Rightarrow> string set" where
  "reserved s = set (databases s) \<union> {''project''}"

text \<open>
  The group \<open>A\<close> is stale, its one parameter has no formula, and the edge to \<open>db1\<close> is
  left from an earlier recalculation; then the state after it has been recalculated.
\<close>

definition stale_activity_state :: state where
  "stale_activity_state =
     settled_state
       \<lparr>activityparameter :=
          [\<lparr>ap_group = ''A'', ap_database = ''db1'', ap_code = ''x'', ap_name = ''c'',
            ap_formula = None, ap_amount = Some 2, ap_data = []\<rparr>],
        group_table := [group_of ''project'' True [], group_of ''db1'' True [], group_of ''A'' False []]\<rparr>"

definition recalculated_activity_state :: state where
  "recalculated_activity_state =
     stale_activity_state
       \<lparr>activityparameter :=
          [\<lparr>ap_group = ''A'', ap_database = ''db1'', ap_code = ''x'', ap_name = ''c'',
            ap_formula = None, ap_amount = Some 1, ap_data = []\<rparr>],
        group_table := [group_of ''project'' True [], group_of ''db1'' True [], group_of ''A'' True []],
        dirty := [''db1'']\<rparr>"

text \<open>
  The group \<open>A\<close> has the parameter \<open>c\<close> without a formula and an edge to the group \<open>B\<close>
  left from the time it had one; \<open>B\<close> is stale, has \<open>d = c\<close> and lists \<open>A\<close> in its order.
\<close>

definition blocked_state :: state where
  "blocked_state =
     empty_state
       \<lparr>activityparameter :=
          [\<lparr>ap_group = ''A'', ap_database = ''db1'', ap_code = ''x'', ap_name = ''c'',
            ap_formula = None, ap_amount = Some 1, ap_data = []\<rparr>,
           \<lparr>ap_group = ''B'', ap_database = ''db1'', ap_code = ''y'', ap_name = ''d'',
            ap_formula = Some ''c'', ap_amount = Some 1, ap_data = []\<rparr>],
        group_table := [group_of ''A'' True [], group_of ''B'' False [''A'']],
        groupdependency := [(''A'', ''B'')],
        databases := [''db1'']\<rparr>"

section \<open>What the sweep is meant to establish\<close>

text \<open>
  The constraints of the tables that the sweep relies on: the \<open>CHECK\<close> constraint of
  \<open>databaseparameter\<close>, the two rules of \<open>GroupDependency.save\<close> (the project group has
  no dependency, a database group depends on the project only), and the effect of
  \<open>purge_order\<close> on every saved order. A state is settled when the project group and
  the groups of the registered databases are not stale, as far as they have parameters.
  \<open>step_ok\<close> relates the states before and after a step that keeps the constraints and
  the registered names, adds or removes no parameter row of a scope, and makes no
  reserved group stale. A group is stranded when it is stale, is neither the project
  group nor the group of a registered database, and has no dependency.
\<close>

definition constraints :: "state \<Rightarrow> bool" where
  "constraints s \<longleftrightarrow>
     (\<forall>r \<in> set (databaseparameter s). dp_database r \<noteq> ''project'')
     \<and> (\<forall>e \<in> set (groupdependency s).
           fst e \<noteq> ''project'' \<and> (fst e \<in> set (databases s) \<longrightarrow> snd e = ''project''))
     \<and> (\<forall>x \<in> set (concat (map g_order (group_table s))). x \<notin> reserved s)"









section \<open>Expiring the dependents of a group\<close>

lemma dependents_iff: "x \<in> dependents s g \<longleftrightarrow> (x, g) \<in> set (groupdependency s)"
  by (force simp: dependents_def)

text \<open>
  C5. \<open>expire_downstream g\<close> leaves every table but \<open>group_table\<close> as it is, keeps the
  name, the stamp and the order of every group row, and the new \<open>fresh\<close> flag of a row is
  its old flag, except that it is false for the rows that have an edge to \<open>g\<close>: the direct
  dependents are stale, every other group keeps its flag, no amount changes.
\<close>

theorem expire_downstream_one_hop:
  "(expire_downstream g s)\<lparr>group_table := group_table s\<rparr> = s
   \<and> map g_name (group_table (expire_downstream g s)) = map g_name (group_table s)
   \<and> map g_updated (group_table (expire_downstream g s)) = map g_updated (group_table s)
   \<and> map g_order (group_table (expire_downstream g s)) = map g_order (group_table s)
   \<and> map g_fresh (group_table (expire_downstream g s)) =
       map (\<lambda>r. g_fresh r \<and> (g_name r, g) \<notin> set (groupdependency s)) (group_table s)"
  by (auto simp: expire_downstream_def dependents_iff)

theorem expire_downstream_one_hop_witness:
  "map g_fresh (group_table (expire_downstream ''project'' settled_state)) = [True, False, True]
   \<and> projectparameter (expire_downstream ''project'' settled_state) = projectparameter settled_state
   \<and> databaseparameter (expire_downstream ''project'' settled_state) = databaseparameter settled_state"
  using expire_downstream_one_hop [where g = "''project''" and s = settled_state]
  by (simp add: settled_state_def empty_state_def group_of_def expire_downstream_def)

section \<open>Recalculating what is fresh\<close>

text \<open>
  C6. When the project group is fresh, \<open>ProjectParameter.recalculate\<close> returns the state
  it was given; so does \<open>DatabaseParameter.recalculate\<close> for a database whose group is
  fresh, and \<open>ActivityParameter.recalculate\<close> for a group that is fresh. The state holds
  every amount, every group row with its stamp and every edge, so nothing was written.
\<close>

theorem recalculate_fresh_is_noop:
  assumes "fresh_group s ''project''"
  shows "recalculate_project ev s = Returns s
    \<and> (fresh_group s db \<longrightarrow> recalculate_database ev db s = Returns s)
    \<and> (fresh_group s grp \<longrightarrow> recalculate_activity (Suc n) ev grp s = Some (Returns s))"
  using assms
  by (auto simp: fresh_group_def expired_def recalculate_project_def recalculate_database_def
      refresh_project_def split: option.splits)

theorem recalculate_fresh_is_noop_witness:
  "fresh_group settled_state ''project'' \<and> fresh_group settled_state ''db1''
   \<and> fresh_group settled_state ''A''
   \<and> recalculate_project name_evaluator settled_state = Returns settled_state
   \<and> recalculate_database name_evaluator ''db1'' settled_state = Returns settled_state
   \<and> recalculate_activity (Suc 0) name_evaluator ''A'' settled_state = Some (Returns settled_state)"
proof -
  have p: "fresh_group settled_state ''project''"
    by (simp add: fresh_group_def group_get_def settled_state_def empty_state_def group_of_def)
  have d: "fresh_group settled_state ''db1''"
    by (simp add: fresh_group_def group_get_def settled_state_def empty_state_def group_of_def)
  have a: "fresh_group settled_state ''A''"
    by (simp add: fresh_group_def group_get_def settled_state_def empty_state_def group_of_def)
  from recalculate_fresh_is_noop [OF p, of name_evaluator "''db1''" "''A''" 0] p d a
  show ?thesis by simp
qed

section \<open>Groups that have no row\<close>

text \<open>
  C10, as the claim has it, fails for the database variant:
  \<open>DatabaseParameter.recalculate\<close> looks at the project group before it looks at its
  own, so with a stale project group it recalculates the project parameters although the
  database has no group row.
\<close>

theorem missing_group_database_counterexample:
  "\<not> (\<forall>ev db s. group_get s db = None \<longrightarrow> recalculate_database ev db s = Returns s)"
proof
  assume "\<forall>ev db s. group_get s db = None \<longrightarrow> recalculate_database ev db s = Returns s"
  then have "group_get stale_project_state ''db1'' = None \<longrightarrow>
      recalculate_database name_evaluator ''db1'' stale_project_state = Returns stale_project_state"
    by blast
  moreover have "group_get stale_project_state ''db1'' = None"
    by code_simp
  moreover have "recalculate_database name_evaluator ''db1'' stale_project_state
      \<noteq> Returns stale_project_state"
    by code_simp
  ultimately show False by simp
qed

text \<open>
  C10, amended. For a name \<open>n\<close> without a group row, \<open>expired\<close> is false; the activity
  variant returns the state it was given, the project variant does when \<open>n\<close> is
  \<open>project\<close>, and the database variant does when the project group is not stale.
\<close>

theorem missing_group_is_fresh:
  assumes "group_get s n = None"
  shows "\<not> expired s n
    \<and> recalculate_activity (Suc k) ev n s = Some (Returns s)
    \<and> (n = ''project'' \<longrightarrow> recalculate_project ev s = Returns s)
    \<and> (\<not> expired s ''project'' \<longrightarrow> recalculate_database ev n s = Returns s)"
  using assms
  by (auto simp: expired_def recalculate_project_def recalculate_database_def
      refresh_project_def split: option.splits)

theorem missing_group_is_fresh_witness:
  "group_get settled_state ''B'' = None
   \<and> \<not> expired settled_state ''B''
   \<and> recalculate_activity (Suc 0) name_evaluator ''B'' settled_state = Some (Returns settled_state)
   \<and> \<not> expired settled_state ''project''
   \<and> recalculate_database name_evaluator ''B'' settled_state = Returns settled_state"
proof -
  have g: "group_get settled_state ''B'' = None"
    by (simp add: group_get_def settled_state_def empty_state_def group_of_def)
  have p: "\<not> expired settled_state ''project''"
    by (simp add: expired_def group_get_def settled_state_def empty_state_def group_of_def)
  from missing_group_is_fresh [OF g, of 0 name_evaluator] g p
  show ?thesis by simp
qed

section \<open>The circular-dependency trigger\<close>

text \<open>
  C7. The trigger looks for the one edge \<open>(NEW.depends, NEW.group)\<close>. With the edges
  \<open>A \<rightarrow> B \<rightarrow> C\<close> in the table, the insert of \<open>C \<rightarrow> A\<close> is accepted, and the table then
  holds a cycle through \<open>A\<close>.
\<close>

theorem closure_trigger_accepts_three_cycle:
  "gd_insert (''C'', ''A'') path_state =
     Returns (path_state\<lparr>groupdependency := [(''A'', ''B''), (''B'', ''C''), (''C'', ''A'')]\<rparr>)
   \<and> (''A'', ''A'') \<in> (set [(''A'', ''B''), (''B'', ''C''), (''C'', ''A'')])\<^sup>+"
proof -
  let ?E = "set [(''A'', ''B''), (''B'', ''C''), (''C'', ''A'')]"
  have "(''A'', ''B'') \<in> ?E\<^sup>+" by (rule r_into_trancl) simp
  then have "(''A'', ''C'') \<in> ?E\<^sup>+" by (rule trancl_into_trancl) simp
  then have "(''A'', ''A'') \<in> ?E\<^sup>+" by (rule trancl_into_trancl) simp
  then show ?thesis
    by (simp add: gd_insert_def closure_trigger_def path_state_def empty_state_def)
qed

section \<open>Validation of a bulk replacement\<close>

text \<open>
  C8. A batch with a name used twice, a database that is not registered, or activity
  rows of more than one database makes the call raise \<open>AssertionError\<close>, and the state
  in which it raises is the state before the call: the parameters of the scope, its
  group row and its edges are what they were. The activity variant raises before its
  first nested call, so whatever the fuel.
\<close>

theorem bulk_replace_validation:
  "(\<not> distinct (map np_name data) \<longrightarrow>
      new_project_parameters ev data s = Raises (AssertionError ''Nonunique names'') s)
   \<and> (db \<notin> set (databases s) \<longrightarrow>
      new_database_parameters ev data db s = Raises (AssertionError ''Unknown database'') s)
   \<and> (\<not> distinct (map np_name data) \<longrightarrow>
      (\<exists>msg. new_database_parameters ev data db s = Raises (AssertionError msg) s))
   \<and> ((1 < card (set (map nap_database adata))
        \<or> (\<exists>r \<in> set adata. nap_database r \<notin> set (databases s))
        \<or> \<not> distinct (map nap_name adata)) \<longrightarrow>
      (\<exists>msg. new_activity_parameters n ev adata grp s = Some (Raises (AssertionError msg) s)))"
  by (auto simp: new_project_parameters_def new_database_parameters_def
      new_activity_parameters_def card_distinct dest: card_distinct)

theorem bulk_replace_validation_witness:
  "\<not> distinct (map np_name twice)
   \<and> new_project_parameters name_evaluator twice settled_state
       = Raises (AssertionError ''Nonunique names'') settled_state
   \<and> ''db2'' \<notin> set (databases settled_state)
   \<and> new_database_parameters name_evaluator twice ''db2'' settled_state
       = Raises (AssertionError ''Unknown database'') settled_state
   \<and> (\<exists>msg. new_database_parameters name_evaluator twice ''db1'' settled_state
       = Raises (AssertionError msg) settled_state)
   \<and> 1 < card (set (map nap_database two_databases))
   \<and> (\<exists>msg. new_activity_parameters 0 name_evaluator two_databases ''A'' settled_state
       = Some (Raises (AssertionError msg) settled_state))"
proof -
  have a: "\<not> distinct (map np_name twice)" by (simp add: twice_def)
  have b: "''db2'' \<notin> set (databases settled_state)"
    by (simp add: settled_state_def empty_state_def)
  have c: "1 < card (set (map nap_database two_databases))"
    by (simp add: two_databases_def)
  from bulk_replace_validation [where data = twice and ev = name_evaluator
      and s = settled_state and db = "''db2''" and adata = two_databases and n = 0
      and grp = "''A''"]
    bulk_replace_validation [where data = twice and ev = name_evaluator
      and s = settled_state and db = "''db1''" and adata = two_databases and n = 0
      and grp = "''A''"] a b c
  show ?thesis by simp
qed

section \<open>Linking the exchanges of an activity\<close>

text \<open>
  C9. For an activity with one parameter and one exchange that has a formula,
  \<open>add_to_group\<close> moves the parameter into the group and then raises in
  \<open>add_exchanges_to_group\<close>: no \<open>ParameterizedExchange\<close> row is there afterwards and the
  exchange still has its formula.
\<close>

theorem add_to_group_raises:
  "add_to_group ''A'' (''db1'', ''x'') activity_state =
     Raises (IntegrityError ''NOT NULL constraint failed'')
       (activity_state
          \<lparr>activityparameter :=
             [\<lparr>ap_group = ''A'', ap_database = ''db1'', ap_code = ''x'', ap_name = ''c'',
               ap_formula = None, ap_amount = Some 3, ap_data = []\<rparr>],
           group_table := [group_of ''A'' False []],
           activities :=
             [\<lparr>a_database = ''db1'', a_code = ''x'', a_parameters = None,
               a_exchanges = [\<lparr>x_id = 7, x_formula = Some ''c''\<rparr>]\<rparr>]\<rparr>)"
  by (simp add: add_to_group_def add_exchanges_to_group_def get_activity_def
      activity_state_def empty_state_def group_of_def group_get_or_create_def group_get_def
      delete_activity_def atomic_def ap_create_def ap_insert_def activity_rows_def without_def
      expire_def group_save_def purge_order_def touch_def default_amount_def Let_def)

section \<open>Dictionaries of plain rows\<close>

lemma dict_items_distinct: "distinct (map fst d) \<Longrightarrow> dict_items d = d"
proof (induction d)
  case Nil
  then show ?case by (simp add: dict_items_def)
next
  case (Cons kv d)
  then have "dict_items d = d" by simp
  moreover have "dict_items (kv # d) = kv # filter (\<lambda>x. fst x \<noteq> fst kv) (dict_items d)"
    by (simp add: dict_items_def)
  moreover have "filter (\<lambda>x. fst x \<noteq> fst kv) d = d"
  proof -
    have "fst kv \<notin> fst ` set d"
      using Cons.prems by simp
    then have "\<forall>x\<in>set d. fst x \<noteq> fst kv"
      by (metis imageI)
    then show ?thesis
      by (simp add: filter_id_conv)
  qed
  ultimately show ?case by simp
qed

lemma map_of_filter_key:
  "map_of (filter (\<lambda>kv. fst kv \<noteq> k) d) k' = (if k' = k then None else map_of d k')"
  by (induction d) auto

lemma strings_Str: "strings (map Str ns) = set ns"
  by (induction ns) (auto simp: strings_def map_filter_simps)

lemma formulas_parse_Nil [simp]: "formulas_parse ev []"
  by (simp add: formulas_parse_def map_filter_simps)

lemma formulas_parse_Cons [simp]:
  "formulas_parse ev (f # fs) \<longleftrightarrow>
     (case f of None \<Rightarrow> True | Some x \<Rightarrow> names_of ev (Str x) \<noteq> None) \<and> formulas_parse ev fs"
  by (cases f) (simp_all add: formulas_parse_def map_filter_simps)

lemma used_names_Nil [simp]: "used_names ev [] = {}"
  by (simp add: used_names_def map_filter_simps)

lemma used_names_Cons [simp]:
  "used_names ev (f # fs) =
     (case f of None \<Rightarrow> {}
      | Some x \<Rightarrow> (case names_of ev (Str x) of None \<Rightarrow> {} | Some ns \<Rightarrow> ns)) \<union> used_names ev fs"
  by (cases f) (simp_all add: used_names_def map_filter_simps)

lemma formulas_parse_append [simp]:
  "formulas_parse ev (fs @ gs) \<longleftrightarrow> formulas_parse ev fs \<and> formulas_parse ev gs"
  by (induction fs) (auto split: option.splits)

lemma used_names_append [simp]: "used_names ev (fs @ gs) = used_names ev fs \<union> used_names ev gs"
  by (induction fs) (auto split: option.splits)

lemma formulas_parse_rev [simp]: "formulas_parse ev (rev fs) = formulas_parse ev fs"
  by (induction fs) (auto split: option.splits)

lemma used_names_rev [simp]: "used_names ev (rev fs) = used_names ev fs"
  by (induction fs) (auto split: option.splits)

lemma found_names_formulas:
  "map (\<lambda>d. map_of d ''formula'') ds = map (map_option Str) fs \<Longrightarrow>
     found_names ev ds = (if formulas_parse ev fs then Some (used_names ev fs) else None)"
proof (induction ds arbitrary: fs)
  case Nil
  then show ?case by simp
next
  case (Cons d ds)
  then obtain f fs' where fs: "fs = f # fs'" by (cases fs) auto
  with Cons.prems have d: "map_of d ''formula'' = map_option Str f"
    and r: "map (\<lambda>d. map_of d ''formula'') ds = map (map_option Str) fs'"
    by auto
  show ?case
    unfolding fs using d Cons.IH [OF r]
    by (cases f) (auto split: option.splits)
qed

lemma new_symbols_of_plain:
  assumes "map fst data = map Str ns" and "distinct ns"
    and "map (\<lambda>d. map_of d ''formula'') (map snd data) = map (map_option Str) fs"
  shows "new_symbols_of ev data =
     (if formulas_parse ev fs then Inr (used_names ev fs - symtable ev - set ns)
      else Inl SyntaxError)"
proof -
  have "distinct (map fst data)"
    using assms(1,2) by (simp add: distinct_map inj_on_def)
  then have "dict_items data = data"
    by (rule dict_items_distinct)
  with assms(1) found_names_formulas [OF assms(3), of ev] show ?thesis
    by (auto simp: new_symbols_of_def get_new_symbols_def strings_Str)
qed

lemma plain_Cons:
  "plain (r # rows) \<longleftrightarrow>
     fst r \<notin> set (map fst rows) \<and> map_of (snd r) ''name'' = None
     \<and> map_of (snd r) ''formula'' = None \<and> plain rows"
  by (auto simp: plain_def)

lemma reformat_ap_dict:
  assumes "map_of (ap_data r) ''name'' = None" and "map_of (ap_data r) ''formula'' = None"
  shows "fst (reformat (ap_dict r)) = Str (ap_name r)"
    and "map_of (snd (reformat (ap_dict r))) ''formula'' = map_option Str (ap_formula r)"
  using assms
  by (auto simp: reformat_def ap_dict_def nonempty_def map_filter_simps map_of_append
      map_of_filter_key map_add_def split: option.splits)

lemma reformat_dp_dict:
  assumes "map_of (dp_data r) ''name'' = None" and "map_of (dp_data r) ''formula'' = None"
  shows "fst (reformat (dp_dict r)) = Str (dp_name r)"
    and "map_of (snd (reformat (dp_dict r))) ''formula'' = map_option Str (dp_formula r)"
  using assms
  by (auto simp: reformat_def dp_dict_def nonempty_def map_filter_simps map_of_append
      map_of_filter_key map_add_def split: option.splits)

lemma plain_activity_rows:
  assumes "plain (map (\<lambda>r. (ap_name r, ap_data r)) rows)"
  shows "map fst (map (\<lambda>r. reformat (ap_dict r)) rows) = map Str (map ap_name rows)
    \<and> map (\<lambda>d. map_of d ''formula'') (map snd (map (\<lambda>r. reformat (ap_dict r)) rows))
        = map (map_option Str) (map ap_formula rows)
    \<and> distinct (map ap_name rows)"
  using assms
proof (induction rows)
  case Nil
  then show ?case by simp
next
  case (Cons r rows)
  then show ?case
    by (auto simp: plain_Cons reformat_ap_dict)
qed

lemma plain_database_rows:
  assumes "plain (map (\<lambda>r. (dp_name r, dp_data r)) rows)"
  shows "map fst (map (\<lambda>r. reformat (dp_dict r)) rows) = map Str (map dp_name rows)
    \<and> map (\<lambda>d. map_of d ''formula'') (map snd (map (\<lambda>r. reformat (dp_dict r)) rows))
        = map (map_option Str) (map dp_formula rows)
    \<and> distinct (map dp_name rows)"
  using assms
proof (induction rows)
  case Nil
  then show ?case by simp
next
  case (Cons r rows)
  then show ?case
    by (auto simp: plain_Cons reformat_dp_dict)
qed

lemma new_symbols_of_activity:
  assumes "plain_activity s grp"
  shows "new_symbols_of ev (load_activity s grp) =
     (if formulas_parse ev (map ap_formula (activity_rows s grp))
      then Inr (free_symbols ev s grp) else Inl SyntaxError)"
proof -
  let ?rows = "activity_rows s grp"
  from assms have p: "plain (map (\<lambda>r. (ap_name r, ap_data r)) ?rows)"
    by (simp add: plain_activity_def)
  note f = plain_activity_rows [OF p]
  have 1: "map fst (load_activity s grp) = map Str (rev (map ap_name ?rows))"
    using f by (simp add: load_activity_def rev_map [symmetric])
  have 2: "distinct (rev (map ap_name ?rows))"
    using f by simp
  have 3: "map (\<lambda>d. map_of d ''formula'') (map snd (load_activity s grp))
      = map (map_option Str) (rev (map ap_formula ?rows))"
    using f by (simp add: load_activity_def rev_map [symmetric])
  from new_symbols_of_plain [OF 1 2 3, of ev] show ?thesis
    by (simp add: free_symbols_def)
qed

lemma new_symbols_of_database:
  assumes "plain_database s db"
  shows "new_symbols_of ev (load_database s db) =
     (if formulas_parse ev (map dp_formula (database_rows s db))
      then Inr (database_symbols ev s db) else Inl SyntaxError)"
proof -
  let ?rows = "database_rows s db"
  from assms have p: "plain (map (\<lambda>r. (dp_name r, dp_data r)) ?rows)"
    by (simp add: plain_database_def)
  note f = plain_database_rows [OF p]
  have 1: "map fst (load_database s db) = map Str (rev (map dp_name ?rows))"
    using f by (simp add: load_database_def rev_map [symmetric])
  have 2: "distinct (rev (map dp_name ?rows))"
    using f by simp
  have 3: "map (\<lambda>d. map_of d ''formula'') (map snd (load_database s db))
      = map (map_option Str) (rev (map dp_formula ?rows))"
    using f by (simp add: load_database_def rev_map [symmetric])
  from new_symbols_of_plain [OF 1 2 3, of ev] show ?thesis
    by (simp add: database_symbols_def)
qed

lemma load_activity_Nil: "load_activity s grp = [] \<longleftrightarrow> activity_rows s grp = []"
  by (simp add: load_activity_def)

lemma load_database_Nil: "load_database s db = [] \<longleftrightarrow> database_rows s db = []"
  by (simp add: load_database_def)

section \<open>The dependency chain\<close>

lemma dom_static_activity:
  "fst ` set (static_activity s g (Some A)) = defined_names s (Activity, g) \<inter> A"
  by (force simp: static_activity_def defined_names_def)

lemma dom_static_database:
  "fst ` set (static_database s g (Some A)) = defined_names s (Database, g) \<inter> A"
  by (force simp: static_database_def defined_names_def)

lemma dom_static_project:
  "fst ` set (static_project s (Some A)) = defined_names s (Project, g) \<inter> A"
  by (force simp: static_project_def defined_names_def)

lemma resolved_at_0: "resolved_at s (scope # path) needed 0 = needed \<inter> defined_names s scope"
  by (auto simp: resolved_at_def)

lemma resolved_at_Suc:
  "resolved_at s (scope # path) needed (Suc i) = resolved_at s path (needed - defined_names s scope) i"
  by (auto simp: resolved_at_def All_less_Suc2)

lemma first_match_chain_Nil: "first_match_chain s [] needed = []"
  by (simp add: first_match_chain_def)

lemma first_match_chain_Cons:
  "first_match_chain s (scope # path) needed =
     (if needed \<inter> defined_names s scope \<noteq> {}
      then [\<lparr>ce_kind = fst scope, ce_group = snd scope, ce_names = needed \<inter> defined_names s scope\<rparr>]
      else [])
     @ first_match_chain s path (needed - defined_names s scope)"
proof -
  have "[0..<length (scope # path)] = 0 # map Suc [0..<length path]"
    by (simp add: upt_conv_Cons map_Suc_upt del: upt_Suc)
  then show ?thesis
    by (simp add: first_match_chain_def resolved_at_0 resolved_at_Suc filter_map comp_def)
qed

lemma first_match_chain_append:
  "first_match_chain s (p1 @ p2) needed =
     first_match_chain s p1 needed
       @ first_match_chain s p2 (needed - \<Union>(defined_names s ` set p1))"
proof (induction p1 arbitrary: needed)
  case Nil
  then show ?case by (simp add: first_match_chain_Nil)
next
  case (Cons scope p1)
  have "needed - defined_names s scope - \<Union>(defined_names s ` set p1)
      = needed - \<Union>(defined_names s ` set (scope # p1))"
    by auto
  with Cons show ?case
    by (simp add: first_match_chain_Cons del: set_simps)
qed

lemma search_order_eq:
  "search_order s gs chain needed =
     (chain @ first_match_chain s (map (Pair Activity) gs) needed,
      needed - \<Union>(defined_names s ` set (map (Pair Activity) gs)))"
proof (induction gs arbitrary: chain needed)
  case Nil
  then show ?case by (simp add: first_match_chain_Nil)
next
  case (Cons g gs)
  let ?D = "defined_names s (Activity, g)"
  have a: "needed - needed \<inter> ?D = needed - ?D"
    by auto
  have b: "needed - ?D = needed" if "needed \<inter> ?D = {}"
    using that by auto
  have c: "needed - ?D - (\<Union>x\<in>set gs. defined_names s (Activity, x))
     = needed - (?D \<union> (\<Union>x\<in>set gs. defined_names s (Activity, x)))"
    by auto
  show ?case
    by (simp add: Cons.IH first_match_chain_Cons dom_static_activity Let_def a b c Int_commute)
qed

lemma search_database_eq:
  "search_database s db chain needed =
     (chain @ first_match_chain s [(Database, db)] needed,
      needed - defined_names s (Database, db))"
  by (auto simp: search_database_def first_match_chain_Cons first_match_chain_Nil
      dom_static_database Let_def Int_commute)

lemma search_project_eq:
  "search_project s chain needed =
     (chain @ first_match_chain s [(Project, ''project'')] needed,
      needed - defined_names s (Project, ''project''))"
  by (auto simp: search_project_def first_match_chain_Cons first_match_chain_Nil
      dom_static_project [where g = "''project''"] Let_def Int_commute)

lemma first_match_chain_empty: "first_match_chain s path {} = []"
  by (simp add: first_match_chain_def resolved_at_def)

lemma first_match_chain_names:
  "\<Union>(ce_names ` set (first_match_chain s path needed))
     = needed \<inter> \<Union>(defined_names s ` set path)"
proof (induction path arbitrary: needed)
  case Nil
  then show ?case by (simp add: first_match_chain_Nil)
next
  case (Cons scope path)
  show ?case
    by (auto simp: first_match_chain_Cons Cons.IH)
qed


lemma first_match_chain_disjoint:
  "sorted_wrt (\<lambda>a b. ce_names a \<inter> ce_names b = {}) (first_match_chain s path needed)"
proof (induction path arbitrary: needed)
  case Nil
  then show ?case by (simp add: first_match_chain_Nil)
next
  case (Cons scope path)
  have "ce_names e \<inter> defined_names s scope = {}"
    if "e \<in> set (first_match_chain s path (needed - defined_names s scope))" for e
    using first_match_chain_names [of s path "needed - defined_names s scope"] that by blast
  with Cons show ?case
    by (auto simp: first_match_chain_Cons)
qed

lemma dependency_chain_eq:
  assumes p: "plain_activity s grp"
    and f: "formulas_parse ev (map ap_formula (activity_rows s grp))"
    and g: "group_get s grp = Some g"
  shows "dependency_chain ev s grp =
     (if unresolved s (search_path s g grp) (free_symbols ev s grp) \<noteq> {}
      then Inl (MissingName (unresolved s (search_path s g grp) (free_symbols ev s grp)))
      else Inr (first_match_chain s (search_path s g grp) (free_symbols ev s grp)))"
proof (cases "activity_rows s grp")
  case Nil
  then have "free_symbols ev s grp = {}"
    by (simp add: free_symbols_def)
  with Nil show ?thesis
    by (simp add: dependency_chain_def load_activity_Nil unresolved_def first_match_chain_empty)
next
  case (Cons first others)
  let ?needed = "free_symbols ev s grp"
  let ?path = "search_path s g grp"
  have sp: "?path = map (Pair Activity) (g_order g) @ [(Database, ap_database first), (Project, ''project'')]"
    using Cons by (simp add: search_path_def)
  have u: "unresolved s ?path ?needed =
      ?needed - (\<Union>x\<in>set (g_order g). defined_names s (Activity, x))
        - defined_names s (Database, ap_database first) - defined_names s (Project, ''project'')"
    unfolding sp by (auto simp: unresolved_def)
  have c: "first_match_chain s ?path ?needed =
      first_match_chain s (map (Pair Activity) (g_order g)) ?needed
      @ first_match_chain s [(Database, ap_database first)]
          (?needed - (\<Union>x\<in>set (g_order g). defined_names s (Activity, x)))
      @ first_match_chain s [(Project, ''project'')]
          (?needed - (\<Union>x\<in>set (g_order g). defined_names s (Activity, x))
             - defined_names s (Database, ap_database first))"
    unfolding sp
    by (simp add: first_match_chain_append first_match_chain_Cons first_match_chain_Nil)
  have n: "new_symbols_of ev (load_activity s grp) = Inr ?needed"
    using new_symbols_of_activity [OF p, of ev] f by simp
  have l: "load_activity s grp \<noteq> []"
    using Cons by (simp add: load_activity_Nil)
  show ?thesis
  proof (cases "?needed = {}")
    case True
    with n l show ?thesis
      by (simp add: dependency_chain_def unresolved_def first_match_chain_empty)
  next
    case False
    with n l g Cons show ?thesis
      unfolding u c
      by (simp add: dependency_chain_def search_order_eq search_database_eq search_project_eq)
  qed
qed

text \<open>
  C2. The activity \<open>(db1, x)\<close> carries the parameters \<open>p = a\<close>, \<open>q = p\<close>, \<open>r = c\<close> and
  \<open>c\<close>, and \<open>c\<close> has a key \<open>name\<close> besides. \<open>add_to_group\<close> puts them into the group
  \<open>X\<close>, the key \<open>name\<close> into the pickled \<open>data\<close> of \<open>c\<close>. The group then defines \<open>p\<close>
  and \<open>c\<close>: they are names of its rows and keys of \<open>static\<close>. Its one free symbol is
  \<open>a\<close>. The chain leaves \<open>p\<close> out but takes \<open>c\<close> from the project, because \<open>load\<close> keys
  the row of \<open>c\<close> by the \<open>name\<close> of its \<open>data\<close>.
\<close>

theorem dependency_chain_takes_own_name:
  "add_to_group ''X'' (''db1'', ''x'') labelled_state = Returns labelled_group_state
   \<and> map ap_name (activity_rows labelled_group_state ''X'') = [''p'', ''q'', ''r'', ''c'']
   \<and> static_activity labelled_group_state ''X'' None
       = [(''c'', Some 3), (''r'', Some 0), (''q'', Some 0), (''p'', Some 0)]
   \<and> free_symbols name_evaluator labelled_group_state ''X'' = {''a''}
   \<and> map fst (load_activity labelled_group_state ''X'') = [Str ''carbon'', Str ''r'', Str ''q'', Str ''p'']
   \<and> dependency_chain name_evaluator labelled_group_state ''X''
       = Inr [\<lparr>ce_kind = Project, ce_group = ''project'', ce_names = {''a'', ''c''}\<rparr>]"
proof (intro conjI)
  show "add_to_group ''X'' (''db1'', ''x'') labelled_state = Returns labelled_group_state"
    by code_simp
  show "map ap_name (activity_rows labelled_group_state ''X'') = [''p'', ''q'', ''r'', ''c'']"
    by code_simp
  show "static_activity labelled_group_state ''X'' None
       = [(''c'', Some 3), (''r'', Some 0), (''q'', Some 0), (''p'', Some 0)]"
    by code_simp
  show "free_symbols name_evaluator labelled_group_state ''X'' = {''a''}"
    by code_simp
  show "map fst (load_activity labelled_group_state ''X'') = [Str ''carbon'', Str ''r'', Str ''q'', Str ''p'']"
    by code_simp
  show "dependency_chain name_evaluator labelled_group_state ''X''
       = Inr [\<lparr>ce_kind = Project, ce_group = ''project'', ce_names = {''a'', ''c''}\<rparr>]"
    by code_simp
qed

section \<open>Missing variables\<close>

lemma gd_insert_error:
  "gd_insert new s = Raises e s' \<Longrightarrow> \<exists>msg. e = IntegrityError msg"
  by (auto simp: gd_insert_def split: if_splits)

lemma database_dependency_error:
  "database_dependency db ns s = Raises e s' \<Longrightarrow> \<forall>m. e \<noteq> MissingName m"
  by (auto simp: database_dependency_def gd_get_or_create_def gd_save_def
      split: if_splits dest: gd_insert_error)

lemma update_database_error:
  "update_database db data amounts s = Raises e s' \<Longrightarrow> e = DoesNotExist"
  by (auto simp: update_database_def atomic_def Let_def split: option.splits)

lemma map_pp_name_amounts:
  "map pp_name (map (\<lambda>r. if P r then r\<lparr>pp_amount := f r\<rparr> else r) rows) = map pp_name rows"
  by (induction rows) auto

lemma refresh_project_frame:
  assumes "refresh_project ev s = Returns s1"
  shows "databaseparameter s1 = databaseparameter s
    \<and> map pp_name (projectparameter s1) = map pp_name (projectparameter s)"
  using assms
  by (auto simp: refresh_project_def recalculate_project_def write_project_def Let_def
      touch_def group_get_or_create_def freshen_def group_save_def expire_downstream_def
      map_pp_name_amounts
      split: if_splits sum.splits option.splits)

lemma recalculate_database_missing:
  assumes r: "refresh_project ev t = Returns t1" and e: "expired t1 db"
    and p: "plain_database t db"
    and f: "formulas_parse ev (map dp_formula (database_rows t db))"
  shows "recalculate_database ev db t = Raises (MissingName names) t' \<longleftrightarrow>
     names \<noteq> {}
     \<and> names = database_symbols ev t db - set (map pp_name (projectparameter t))
     \<and> t' = t1"
proof -
  note fr = refresh_project_frame [OF r]
  have rows: "database_rows t1 db = database_rows t db"
    using fr by (simp add: database_rows_def)
  have ld: "load_database t1 db = load_database t db"
    using rows by (simp add: load_database_def)
  let ?new = "database_symbols ev t db"
  let ?missing = "?new - set (map pp_name (projectparameter t))"
  have n: "new_symbols_of ev (load_database t db) = Inr ?new"
    using new_symbols_of_database [OF p, of ev] f by simp
  show ?thesis
  proof (cases "database_rows t db = []")
    case True
    then have "?new = {}"
      by (simp add: database_symbols_def)
    with True r e ld show ?thesis
      by (auto simp: recalculate_database_def load_database_Nil)
  next
    case False
    then have l: "load_database t db \<noteq> []"
      by (simp add: load_database_Nil)
    show ?thesis
    proof (cases "?missing = {}")
      case True
      have "recalculate_database ev db t \<noteq> Raises (MissingName names) t'"
      proof
        assume a: "recalculate_database ev db t = Raises (MissingName names) t'"
        show False
        proof (cases "database_dependency db ?new t1")
          case (Raises e' s')
          with a r e ld l n True fr database_dependency_error [OF Raises] show False
            by (simp add: recalculate_database_def)
        next
          case (Returns s2)
          show False
          proof (cases "evaluate_and_set_amount_field ev (dict_items (load_database t db))
              (if ?new \<noteq> {} then Some (static_project s2 (Some ?new)) else None)")
            case (Inl msg)
            with a r e ld l n True fr Returns show False
              by (simp add: recalculate_database_def)
          next
            case (Inr amounts)
            with a r e ld l n True fr Returns
            have "update_database db (load_database t db) amounts s2 = Raises (MissingName names) t'"
              by (simp add: recalculate_database_def)
            from update_database_error [OF this] show False
              by simp
          qed
        qed
      qed
      with True show ?thesis
        by auto
    next
      case False
      with r e ld l n fr have "recalculate_database ev db t = Raises (MissingName ?missing) t1"
        by (simp add: recalculate_database_def)
      with False show ?thesis
        by auto
    qed
  qed
qed

text \<open>
  C4, as the claim has it, fails for the database variant: a database whose group is
  fresh is not looked at, so \<open>DatabaseParameter.recalculate\<close> returns although a formula
  of the database uses a name that is no project parameter.
\<close>

theorem missing_variables_fresh_database_counterexample:
  "\<not> (\<forall>ev db s. (\<exists>names s'. recalculate_database ev db s = Raises (MissingName names) s')
          \<longleftrightarrow> database_symbols ev s db - set (map pp_name (projectparameter s)) \<noteq> {})"
proof
  assume claim: "\<forall>ev db s. (\<exists>names s'. recalculate_database ev db s = Raises (MissingName names) s')
          \<longleftrightarrow> database_symbols ev s db - set (map pp_name (projectparameter s)) \<noteq> {}"
  have ds: "database_symbols name_evaluator fresh_missing_state ''db1''
      - set (map pp_name (projectparameter fresh_missing_state)) = {''a''}"
    by code_simp
  have r: "recalculate_database name_evaluator ''db1'' fresh_missing_state
      = Returns fresh_missing_state"
    by code_simp
  from claim [rule_format, of name_evaluator "''db1''" fresh_missing_state]
  have "\<exists>names s'. recalculate_database name_evaluator ''db1'' fresh_missing_state
        = Raises (MissingName names) s'"
    unfolding ds by simp
  then show False
    unfolding r by simp
qed

text \<open>
  C4, amended. For a group that has its row, with plain rows and formulas that parse,
  \<open>dependency_chain\<close> raises \<open>MissingName\<close> exactly when a free symbol of the group is
  defined by no scope of the search path, and it names the symbols that are not; a group
  without parameters has no free symbol. \<open>DatabaseParameter.recalculate\<close> first refreshes
  the project; when that returns and the group of the database is stale then, with plain
  rows and formulas that parse, it raises \<open>MissingName\<close> exactly when a free symbol of
  the database is no project parameter, it names those symbols, and it raises in the
  state the refresh of the project has left.
\<close>

theorem missing_variables_iff:
  "(plain_activity s grp \<and> formulas_parse ev (map ap_formula (activity_rows s grp))
      \<and> group_get s grp = Some g \<longrightarrow>
      (dependency_chain ev s grp = Inl (MissingName names) \<longleftrightarrow>
         names \<noteq> {}
         \<and> names = unresolved s (search_path s g grp) (free_symbols ev s grp)))
   \<and> (plain_database t db \<and> formulas_parse ev (map dp_formula (database_rows t db))
      \<and> refresh_project ev t = Returns t1 \<and> expired t1 db \<longrightarrow>
      (recalculate_database ev db t = Raises (MissingName names') t' \<longleftrightarrow>
         names' \<noteq> {}
         \<and> names' = database_symbols ev t db - set (map pp_name (projectparameter t))
         \<and> t' = t1))"
proof (intro conjI impI)
  assume "plain_activity s grp \<and> formulas_parse ev (map ap_formula (activity_rows s grp))
      \<and> group_get s grp = Some g"
  then have "dependency_chain ev s grp =
     (if unresolved s (search_path s g grp) (free_symbols ev s grp) \<noteq> {}
      then Inl (MissingName (unresolved s (search_path s g grp) (free_symbols ev s grp)))
      else Inr (first_match_chain s (search_path s g grp) (free_symbols ev s grp)))"
    by (simp add: dependency_chain_eq)
  then show "dependency_chain ev s grp = Inl (MissingName names) \<longleftrightarrow>
         names \<noteq> {}
         \<and> names = unresolved s (search_path s g grp) (free_symbols ev s grp)"
    by auto
next
  assume "plain_database t db \<and> formulas_parse ev (map dp_formula (database_rows t db))
      \<and> refresh_project ev t = Returns t1 \<and> expired t1 db"
  then show "recalculate_database ev db t = Raises (MissingName names') t' \<longleftrightarrow>
         names' \<noteq> {}
         \<and> names' = database_symbols ev t db - set (map pp_name (projectparameter t))
         \<and> t' = t1"
    by (simp add: recalculate_database_missing)
qed


theorem missing_variables_iff_witness:
  "plain_activity missing_state ''X''
   \<and> formulas_parse name_evaluator (map ap_formula (activity_rows missing_state ''X''))
   \<and> group_get missing_state ''X'' = Some (group_of ''X'' False [''Y'', ''Z''])
   \<and> dependency_chain name_evaluator missing_state ''X'' = Inl (MissingName {''c''})
   \<and> plain_database stale_missing_state ''db1''
   \<and> formulas_parse name_evaluator (map dp_formula (database_rows stale_missing_state ''db1''))
   \<and> refresh_project name_evaluator stale_missing_state = Returns refreshed_missing_state
   \<and> expired refreshed_missing_state ''db1''
   \<and> recalculate_database name_evaluator ''db1'' stale_missing_state
       = Raises (MissingName {''a''}) refreshed_missing_state"
proof -
  have h1: "plain_activity missing_state ''X''"
    by code_simp
  have h2: "formulas_parse name_evaluator (map ap_formula (activity_rows missing_state ''X''))"
    by code_simp
  have h3: "group_get missing_state ''X'' = Some (group_of ''X'' False [''Y'', ''Z''])"
    by code_simp
  have h4: "plain_database stale_missing_state ''db1''"
    by code_simp
  have h5: "formulas_parse name_evaluator
      (map dp_formula (database_rows stale_missing_state ''db1''))"
    by code_simp
  have h6: "refresh_project name_evaluator stale_missing_state = Returns refreshed_missing_state"
    by code_simp
  have h7: "expired refreshed_missing_state ''db1''"
    by code_simp
  have u: "unresolved missing_state
      (search_path missing_state (group_of ''X'' False [''Y'', ''Z'']) ''X'')
      (free_symbols name_evaluator missing_state ''X'') = {''c''}"
    by code_simp
  have d: "database_symbols name_evaluator stale_missing_state ''db1''
      - set (map pp_name (projectparameter stale_missing_state)) = {''a''}"
    by code_simp
  note inst = missing_variables_iff [where s = missing_state and grp = "''X''"
      and ev = name_evaluator and g = "group_of ''X'' False [''Y'', ''Z'']"
      and names = "{''c''}" and t = stale_missing_state and db = "''db1''"
      and ?t1.0 = refreshed_missing_state and names' = "{''a''}"
      and t' = refreshed_missing_state]
  from mp [OF conjunct1 [OF inst] conjI [OF h1 conjI [OF h2 h3]]]
  have a: "dependency_chain name_evaluator missing_state ''X'' = Inl (MissingName {''c''})"
    unfolding u by simp
  from mp [OF conjunct2 [OF inst] conjI [OF h4 conjI [OF h5 conjI [OF h6 h7]]]]
  have b: "recalculate_database name_evaluator ''db1'' stale_missing_state
       = Raises (MissingName {''a''}) refreshed_missing_state"
    unfolding d by simp
  from h1 h2 h3 a h4 h5 h6 h7 b show ?thesis
    by (intro conjI)
qed

section \<open>Recalculating an activity group\<close>

text \<open>
  C3. The group \<open>A\<close> is stale and has an edge to \<open>db1\<close>, and its chain is empty:
  \<open>ActivityParameter.recalculate\<close> returns with the group fresh and the edge still
  there. Such an edge later stands in the way: \<open>A\<close>, whose chain is empty, has an edge
  to \<open>B\<close> left, \<open>B\<close> now needs \<open>A\<close>, and the recalculation of \<open>B\<close> raises at the edge
  \<open>B \<rightarrow> A\<close> and leaves the state as it was.
\<close>

theorem recalculate_activity_keeps_edges:
  "expired stale_activity_state ''A''
   \<and> dependency_chain name_evaluator stale_activity_state ''A'' = Inr []
   \<and> recalculate_activity (Suc 0) name_evaluator ''A'' stale_activity_state
       = Some (Returns recalculated_activity_state)
   \<and> \<not> expired recalculated_activity_state ''A''
   \<and> filter (\<lambda>e. fst e = ''A'') (groupdependency recalculated_activity_state)
       = [(''A'', ''db1'')]
   \<and> dependency_chain name_evaluator blocked_state ''A'' = Inr []
   \<and> dependency_chain name_evaluator blocked_state ''B''
       = Inr [\<lparr>ce_kind = Activity, ce_group = ''A'', ce_names = {''c''}\<rparr>]
   \<and> recalculate_activity (Suc 0) name_evaluator ''B'' blocked_state
       = Some (Raises (IntegrityError ''Circular dependency'') blocked_state)"
proof (intro conjI)
  show "expired stale_activity_state ''A''"
    by code_simp
  show "dependency_chain name_evaluator stale_activity_state ''A'' = Inr []"
    by code_simp
  show "recalculate_activity (Suc 0) name_evaluator ''A'' stale_activity_state
       = Some (Returns recalculated_activity_state)"
    by code_simp
  show "\<not> expired recalculated_activity_state ''A''"
    by code_simp
  show "filter (\<lambda>e. fst e = ''A'') (groupdependency recalculated_activity_state)
       = [(''A'', ''db1'')]"
    by code_simp
  show "dependency_chain name_evaluator blocked_state ''A'' = Inr []"
    by code_simp
  show "dependency_chain name_evaluator blocked_state ''B''
       = Inr [\<lparr>ce_kind = Activity, ce_group = ''A'', ce_names = {''c''}\<rparr>]"
    by code_simp
  show "recalculate_activity (Suc 0) name_evaluator ''B'' blocked_state
       = Some (Raises (IntegrityError ''Circular dependency'') blocked_state)"
    by code_simp
qed

section \<open>The sweep over all groups\<close>







lemma recalculate_chain_Cons:
  "recalculate_chain n ev (row # rows) s =
     (case recalculate_row n ev row s of
        None \<Rightarrow> None
      | Some (Raises e s') \<Rightarrow> Some (Raises e s')
      | Some (Returns s') \<Rightarrow> recalculate_chain n ev rows s')"
  by (simp add: recalculate_row_def)




lemma find_map_names:
  assumes "\<And>r. g_name (f r) = g_name r"
  shows "find (\<lambda>r. g_name r = x) (map f rows) = map_option f (find (\<lambda>r. g_name r = x) rows)"
  by (induction rows) (auto simp: assms)

lemma expired_map:
  assumes "\<And>r. g_name (f r) = g_name r"
  shows "expired (s\<lparr>group_table := map f (group_table s)\<rparr>) x
     = (case group_get s x of Some r \<Rightarrow> \<not> g_fresh (f r) | None \<Rightarrow> False)"
  by (simp add: expired_def group_get_def find_map_names [of f, OF assms] split: option.splits)

lemma expired_touch [simp]: "expired (touch n s) x = expired s x"
  unfolding touch_def
  by (subst expired_map) (auto simp: expired_def split: option.splits)


lemma orders_touch': "map g_order (map (\<lambda>r. if g_name r = n then r\<lparr>g_updated := c\<rparr> else r) rows) = map g_order rows"
  by (induction rows) auto

lemma constraints_touch [simp]: "constraints (touch n s) = constraints s"
  by (simp add: constraints_def reserved_def touch_def orders_touch')

lemma touch_fields [simp]:
  "databases (touch n s) = databases s"
  "projectparameter (touch n s) = projectparameter s"
  "databaseparameter (touch n s) = databaseparameter s"
  "activityparameter (touch n s) = activityparameter s"
  "groupdependency (touch n s) = groupdependency s"
  by (simp_all add: touch_def)



lemma group_save_fields [simp]:
  "databases (group_save g s) = databases s"
  "projectparameter (group_save g s) = projectparameter s"
  "databaseparameter (group_save g s) = databaseparameter s"
  "activityparameter (group_save g s) = activityparameter s"
  "groupdependency (group_save g s) = groupdependency s"
  "group_table (group_save g s)
     = map (\<lambda>r. if g_name r = g_name g then purge_order s g else r) (group_table s)"
  by (simp_all add: group_save_def)



lemma freshen_fields [simp]:
  "databases (freshen g s) = databases s"
  "projectparameter (freshen g s) = projectparameter s"
  "databaseparameter (freshen g s) = databaseparameter s"
  "activityparameter (freshen g s) = activityparameter s"
  "groupdependency (freshen g s) = groupdependency s"
  by (simp_all add: freshen_def group_save_def)


lemma orders_expire': "map g_order (map (\<lambda>r. if P r then r\<lparr>g_fresh := False\<rparr> else r) rows) = map g_order rows"
  by (induction rows) auto

lemma constraints_expire_downstream [simp]:
  "constraints (expire_downstream g s) = constraints s"
  by (simp add: constraints_def reserved_def expire_downstream_def orders_expire')

lemma expire_downstream_fields [simp]:
  "databases (expire_downstream g s) = databases s"
  "projectparameter (expire_downstream g s) = projectparameter s"
  "databaseparameter (expire_downstream g s) = databaseparameter s"
  "activityparameter (expire_downstream g s) = activityparameter s"
  "groupdependency (expire_downstream g s) = groupdependency s"
  by (simp_all add: expire_downstream_def)


lemma expired_cong: "group_table s' = group_table s \<Longrightarrow> expired s' x = expired s x"
  by (simp add: expired_def group_get_def)

lemma constraints_cong:
  "databaseparameter s' = databaseparameter s \<Longrightarrow> groupdependency s' = groupdependency s \<Longrightarrow>
   databases s' = databases s \<Longrightarrow> group_table s' = group_table s \<Longrightarrow>
   constraints s' = constraints s"
  by (simp add: constraints_def reserved_def)


lemma group_get_cong: "group_table s' = group_table s \<Longrightarrow> group_get s' n = group_get s n"
  by (simp add: group_get_def)


lemma expired_updates [simp]:
  "expired (s\<lparr>groupdependency := E\<rparr>) x = expired s x"
  "expired (s\<lparr>databaseparameter := D\<rparr>) x = expired s x"
  "expired (s\<lparr>activityparameter := A\<rparr>) x = expired s x"
  "expired (s\<lparr>projectparameter := P\<rparr>) x = expired s x"
  "expired (s\<lparr>dirty := Y\<rparr>) x = expired s x"
  by (simp_all add: expired_def group_get_def)

lemma constraints_updates [simp]:
  "constraints (s\<lparr>activityparameter := A\<rparr>) = constraints s"
  "constraints (s\<lparr>projectparameter := P\<rparr>) = constraints s"
  "constraints (s\<lparr>dirty := Y\<rparr>) = constraints s"
  by (simp_all add: constraints_def reserved_def)


lemma constraints_dp_map:
  assumes "constraints s" and "\<And>r. dp_database (f r) = dp_database r"
  shows "constraints (s\<lparr>databaseparameter := map f (databaseparameter s)\<rparr>)"
  using assms by (auto simp: constraints_def reserved_def)


lemma constraints_dp_map_iff:
  assumes "\<And>r. dp_database (f r) = dp_database r"
  shows "constraints (s\<lparr>databaseparameter := map f (databaseparameter s)\<rparr>) = constraints s"
  by (auto simp: constraints_def reserved_def assms)


lemma database_rows_map:
  assumes "\<And>r. dp_database (f r) = dp_database r"
  shows "database_rows (s\<lparr>databaseparameter := map f (databaseparameter s)\<rparr>) db
           = map f (database_rows s db)"
  by (simp add: database_rows_def filter_map comp_def assms)

lemma write_project_facts [simp]:
  "constraints (write_project data amounts s) = constraints s"
  "expired (write_project data amounts s) x = expired s x"
  "databases (write_project data amounts s) = databases s"
  "databaseparameter (write_project data amounts s) = databaseparameter s"
  "groupdependency (write_project data amounts s) = groupdependency s"
  "projectparameter (write_project data amounts s) = [] \<longleftrightarrow> projectparameter s = []"
  by (simp_all add: write_project_def Let_def)

lemma group_get_projectparameter [simp]:
  "group_get (s\<lparr>projectparameter := P\<rparr>) n = group_get s n"
  by (simp add: group_get_def)



lemma write_database_facts [simp]:
  "constraints (write_database d data amounts s) = constraints s"
  "expired (write_database d data amounts s) x = expired s x"
  "databases (write_database d data amounts s) = databases s"
  "projectparameter (write_database d data amounts s) = projectparameter s"
  "groupdependency (write_database d data amounts s) = groupdependency s"
  "database_rows (write_database d data amounts s) db = [] \<longleftrightarrow> database_rows s db = []"
proof -
  let ?f = "\<lambda>r. if dp_database r = d \<and> Str (dp_name r) \<in> set (map fst data)
                 then r\<lparr>dp_amount := Some (amounts (Str (dp_name r)))\<rparr> else r"
  let ?s0 = "s\<lparr>databaseparameter := map ?f (databaseparameter s)\<rparr>"
  have f: "dp_database (?f r) = dp_database r" for r
    by simp
  have c0: "constraints ?s0 = constraints s"
    by (rule constraints_dp_map_iff) simp
  have r0: "database_rows ?s0 db = map ?f (database_rows s db)"
    using database_rows_map [of ?f s db] by simp
  show "constraints (write_database d data amounts s) = constraints s"
    using c0 by (simp add: write_database_def Let_def)
  show "expired (write_database d data amounts s) x = expired s x"
    by (simp add: write_database_def Let_def)
  show "databases (write_database d data amounts s) = databases s"
    by (simp add: write_database_def Let_def)
  show "projectparameter (write_database d data amounts s) = projectparameter s"
    by (simp add: write_database_def Let_def)
  show "groupdependency (write_database d data amounts s) = groupdependency s"
    by (simp add: write_database_def Let_def)
  show "database_rows (write_database d data amounts s) db = [] \<longleftrightarrow> database_rows s db = []"
    using r0 by (simp add: write_database_def Let_def database_rows_def)
qed

lemma write_amounts_facts [simp]:
  "constraints (write_amounts g data amounts s) = constraints s"
  "expired (write_amounts g data amounts s) x = expired s x"
  "databases (write_amounts g data amounts s) = databases s"
  "projectparameter (write_amounts g data amounts s) = projectparameter s"
  "databaseparameter (write_amounts g data amounts s) = databaseparameter s"
  "groupdependency (write_amounts g data amounts s) = groupdependency s"
  by (simp_all add: write_amounts_def Let_def)
















































end
